theory Spec2Isabelle
  imports Complex_Main "HOL-Library.Word"
begin

chapter \<open>The model\<close>

section \<open>Lexical scopes and the visible-variables query (BubbleScript.ts)\<close>

text \<open>
  A source position as typescript-estree reports it: 1-based lines, 0-based columns.
  The code reads every \<open>loc\<close> through optional chaining, so a \<open>loc\<close> is optional here too.
\<close>

record location =
  startLine :: nat
  startCol :: nat
  endLine :: nat
  endCol :: nat

text \<open>
  A scope-manager \<open>Variable\<close>: its \<open>$id\<close>, its name, the \<open>loc\<close> of the node of each of its
  definitions (\<open>defs[i].node.loc\<close>) and the type of the scope that owns it
  (\<open>variable.scope.type\<close>). Two variables are the same object exactly when their \<open>$id\<close>s agree;
  the ids come from a counter, so they are natural numbers.
\<close>

record variable =
  var_id :: nat
  var_name :: string
  var_defs :: "location option list"
  var_scope_type :: string

text \<open>
  A scope with the \<open>loc\<close> of its block, its own variables and its enclosing scope
  (\<open>scope.upper\<close>); the chain of enclosing scopes is finite because it is part of the value.
\<close>

datatype scope =
  Scope (scope_type: string) (block_loc: "location option")
        (scope_variables: "variable list") (upper: "scope option")

type_synonym scopeManager = "scope list"

text \<open>\<open>scope.block.loc?.start.line || 0\<close> and \<open>scope.block.loc?.end.line || 0\<close>.\<close>

definition scopeStart :: "scope \<Rightarrow> nat" where
  "scopeStart s = (case block_loc s of None \<Rightarrow> 0 | Some l \<Rightarrow> startLine l)"

definition scopeEnd :: "scope \<Rightarrow> nat" where
  "scopeEnd s = (case block_loc s of None \<Rightarrow> 0 | Some l \<Rightarrow> endLine l)"

definition containsLine :: "nat \<Rightarrow> scope \<Rightarrow> bool" where
  "containsLine lineNumber s \<longleftrightarrow> lineNumber \<ge> scopeStart s \<and> lineNumber \<le> scopeEnd s"

text \<open>The \<open>scopePriority\<close> table of \<open>getAllScopesContainingLine\<close>; unknown types count 0.\<close>

definition scopePriority :: "string \<Rightarrow> int" where
  "scopePriority t =
     (if t = ''block'' then 5 else if t = ''for'' then 4 else if t = ''function'' then 3
      else if t = ''module'' then 2 else if t = ''global'' then 1 else 0)"

definition scopeRange :: "scope \<Rightarrow> int" where
  "scopeRange s = int (scopeEnd s) - int (scopeStart s)"

text \<open>
  \<open>getAllScopesContainingLine\<close>: the scopes whose block contains the line, sorted by the
  comparator (smaller range first, then higher priority first). JavaScript's sort is stable,
  so it is a stable sort on the range after a stable sort on the priority.
\<close>

definition getAllScopesContainingLine :: "scopeManager \<Rightarrow> nat \<Rightarrow> scope list" where
  "getAllScopesContainingLine scopes lineNumber =
     sort_key scopeRange
       (sort_key (\<lambda>s. - scopePriority (scope_type s))
          (filter (containsLine lineNumber) scopes))"

text \<open>A JavaScript \<open>Set\<close> of variables: insertion order, no object twice.\<close>

definition set_add :: "variable list \<Rightarrow> variable \<Rightarrow> variable list" where
  "set_add acc v = (if var_id v \<in> var_id ` set acc then acc else acc @ [v])"

definition set_add_all :: "variable list \<Rightarrow> variable list \<Rightarrow> variable list" where
  "set_add_all acc vs = foldl set_add acc vs"

text \<open>The \<open>while (parentScope)\<close> loop: the variables of every enclosing scope, innermost first.\<close>

fun add_parents :: "variable list \<Rightarrow> scope option \<Rightarrow> variable list" where
  "add_parents acc None = acc"
| "add_parents acc (Some (Scope t b vs up)) = add_parents (set_add_all acc vs) up"

definition add_scope :: "variable list \<Rightarrow> scope \<Rightarrow> variable list" where
  "add_scope acc s = add_parents (set_add_all acc (scope_variables s)) (upper s)"

text \<open>\<open>String.prototype.startsWith\<close> and \<open>String.prototype.includes\<close>.\<close>

definition startsWith :: "string \<Rightarrow> string \<Rightarrow> bool" where
  "startsWith s p \<longleftrightarrow> take (length p) s = p"

fun str_includes :: "string \<Rightarrow> string \<Rightarrow> bool" where
  "str_includes [] p = (p = [])"
| "str_includes (c # s) p = (startsWith (c # s) p \<or> str_includes s p)"

definition globalNames :: "string list" where
  "globalNames =
     [''console'', ''Array'', ''Object'', ''String'', ''Number'', ''Boolean'', ''Date'',
      ''Math'', ''JSON'', ''Promise'', ''Error'', ''Function'', ''Symbol'', ''Map'', ''Set'',
      ''WeakMap'', ''WeakSet'', ''Proxy'', ''Reflect'', ''Buffer'', ''process'', ''global'',
      ''require'', ''__dirname'', ''__filename'', ''module'', ''exports'',
      ''Intl'', ''SymbolConstructor'', ''ArrayConstructor'', ''MapConstructor'',
      ''SetConstructor'', ''PromiseConstructor'', ''ErrorConstructor'', ''RegExp'',
      ''PropertyKey'', ''PropertyDescriptor'', ''Partial'', ''Required'', ''Readonly'',
      ''Pick'', ''Record'', ''Exclude'', ''Extract'', ''Omit'', ''NonNullable'']"

definition isGlobalVariable :: "variable \<Rightarrow> bool" where
  "isGlobalVariable v \<longleftrightarrow>
     List.member globalNames (var_name v) \<or>
     var_scope_type v = ''global'' \<or>
     str_includes (var_name v) ''Constructor'' \<or>
     str_includes (var_name v) ''Array'' \<or>
     str_includes (var_name v) ''Iterator'' \<or>
     startsWith (var_name v) ''Disposable'' \<or>
     startsWith (var_name v) ''Async'' \<or>
     str_includes (var_name v) ''Decorator''"

text \<open>
  \<open>isVariableDeclaredBeforeLine\<close>: a variable without definitions counts as available;
  otherwise some definition must start at or before the line.
\<close>

definition declaredAtOrBefore :: "nat \<Rightarrow> location option \<Rightarrow> bool" where
  "declaredAtOrBefore lineNumber d =
     (case d of None \<Rightarrow> False | Some l \<Rightarrow> startLine l \<le> lineNumber)"

definition isVariableDeclaredBeforeLine :: "variable \<Rightarrow> nat \<Rightarrow> bool" where
  "isVariableDeclaredBeforeLine v lineNumber =
     (if var_defs v = [] then True
      else list_ex (declaredAtOrBefore lineNumber) (var_defs v))"

definition getVarsForLine :: "scopeManager \<Rightarrow> nat \<Rightarrow> variable list" where
  "getVarsForLine scopes lineNumber =
     (let containingScopes = getAllScopesContainingLine scopes lineNumber in
      if containingScopes = [] then []
      else
        filter (\<lambda>v. isVariableDeclaredBeforeLine v lineNumber)
          (filter (\<lambda>v. \<not> isGlobalVariable v)
             (foldl add_scope [] containingScopes)))"

text \<open>
  For stating what the query returns: the enclosing scopes of a scope, the variables a scope
  can see through its chain, and the variables accessible from the scopes containing a line.
\<close>

fun ancestors :: "scope option \<Rightarrow> scope list" where
  "ancestors None = []"
| "ancestors (Some (Scope t b vs up)) = Scope t b vs up # ancestors up"

definition chain_vars :: "scope \<Rightarrow> variable set" where
  "chain_vars s = set (scope_variables s) \<union> (\<Union>p \<in> set (ancestors (upper s)). set (scope_variables p))"

definition accessible :: "scopeManager \<Rightarrow> nat \<Rightarrow> variable set" where
  "accessible scopes lineNumber = (\<Union>s \<in> {s \<in> set scopes. containsLine lineNumber s}. chain_vars s)"

subsection \<open>A for-loop script whose body declares \<open>dataArray\<close>\<close>

text \<open>
  The scope manager of
  \<^verbatim>\<open>const a = 1;
for (let i = 0; i < 3; i++) {
  const dataArray = [i];
}
\<close>
  (five lines, the last one empty): the global and module scopes span lines 1 to 5, the
  \<open>for\<close> scope and the block scope of its body span lines 2 to 4.
\<close>

definition c6_a :: variable where
  "c6_a = \<lparr>var_id = 1, var_name = ''a'',
     var_defs = [Some \<lparr>startLine = 1, startCol = 6, endLine = 1, endCol = 11\<rparr>],
     var_scope_type = ''module''\<rparr>"

definition c6_i :: variable where
  "c6_i = \<lparr>var_id = 2, var_name = ''i'',
     var_defs = [Some \<lparr>startLine = 2, startCol = 9, endLine = 2, endCol = 14\<rparr>],
     var_scope_type = ''for''\<rparr>"

definition c6_dataArray :: variable where
  "c6_dataArray = \<lparr>var_id = 3, var_name = ''dataArray'',
     var_defs = [Some \<lparr>startLine = 3, startCol = 8, endLine = 3, endCol = 23\<rparr>],
     var_scope_type = ''block''\<rparr>"

definition c6_global :: scope where
  "c6_global = Scope ''global''
     (Some \<lparr>startLine = 1, startCol = 0, endLine = 5, endCol = 0\<rparr>) [] None"

definition c6_module :: scope where
  "c6_module = Scope ''module''
     (Some \<lparr>startLine = 1, startCol = 0, endLine = 5, endCol = 0\<rparr>) [c6_a] (Some c6_global)"

definition c6_for :: scope where
  "c6_for = Scope ''for''
     (Some \<lparr>startLine = 2, startCol = 0, endLine = 4, endCol = 1\<rparr>) [c6_i] (Some c6_module)"

definition c6_block :: scope where
  "c6_block = Scope ''block''
     (Some \<lparr>startLine = 2, startCol = 28, endLine = 4, endCol = 1\<rparr>) [c6_dataArray]
     (Some c6_for)"

definition c6_scopes :: scopeManager where
  "c6_scopes = [c6_global, c6_module, c6_for, c6_block]"

section \<open>JavaScript strings and regular expressions\<close>

text \<open>
  Strings are lists of 8-bit code units. \<open>split_on\<close> is \<open>s.split(c)\<close> for a one-character
  separator (the empty string splits into one empty piece) and \<open>join\<close> is \<open>xs.join(sep)\<close>.
\<close>

definition NL :: char where
  "NL = CHR 0x0A"

fun split_on :: "char \<Rightarrow> string \<Rightarrow> string list" where
  "split_on c [] = [[]]"
| "split_on c (x # xs) =
     (if x = c then [] # split_on c xs
      else (case split_on c xs of [] \<Rightarrow> [[x]] | l # ls \<Rightarrow> (x # l) # ls))"

fun join :: "string \<Rightarrow> string list \<Rightarrow> string" where
  "join sep [] = []"
| "join sep [x] = x"
| "join sep (x # y # ys) = x @ sep @ join sep (y # ys)"

text \<open>White space as \<open>\s\<close> and \<open>trim\<close> see it, and the word characters of \<open>\w\<close> and \<open>\b\<close>.\<close>

definition isSpace :: "char \<Rightarrow> bool" where
  "isSpace c \<longleftrightarrow> c = CHR '' '' \<or> c = CHR 0x09 \<or> c = CHR 0x0A \<or> c = CHR 0x0B \<or>
     c = CHR 0x0C \<or> c = CHR 0x0D \<or> c = CHR 0xA0"

definition charCode :: "char \<Rightarrow> nat" where
  "charCode c = of_char c"

definition isDigit :: "char \<Rightarrow> bool" where
  "isDigit c \<longleftrightarrow> 48 \<le> charCode c \<and> charCode c \<le> 57"

definition isAlpha :: "char \<Rightarrow> bool" where
  "isAlpha c \<longleftrightarrow> (97 \<le> charCode c \<and> charCode c \<le> 122) \<or> (65 \<le> charCode c \<and> charCode c \<le> 90)"

definition isWordChar :: "char \<Rightarrow> bool" where
  "isWordChar c \<longleftrightarrow> isAlpha c \<or> isDigit c \<or> c = CHR ''_''"

definition trimStart :: "string \<Rightarrow> string" where
  "trimStart s = dropWhile isSpace s"

definition trim :: "string \<Rightarrow> string" where
  "trim s = rev (dropWhile isSpace (rev (dropWhile isSpace s)))"

definition endsWith :: "string \<Rightarrow> string \<Rightarrow> bool" where
  "endsWith s p \<longleftrightarrow> startsWith (rev s) (rev p)"

subsection \<open>A backtracking matcher\<close>

text \<open>
  The regular expressions of the code, as syntax trees. \<open>Star\<close> is the greedy \<open>*\<close>;
  \<open>Grp n\<close> is the \<open>n\<close>-th capturing group, \<open>Bref n\<close> the back-reference \<open>\n\<close>,
  \<open>Bnd\<close> is \<open>\b\<close>, \<open>Bol\<close> and \<open>Eol\<close> are \<open>^\<close> and \<open>$\<close> without the \<open>m\<close> flag.
\<close>

datatype re =
    Eps
  | Chr char
  | Cls "char \<Rightarrow> bool"
  | Seq re re
  | Alt re re
  | Star re
  | Grp nat re
  | Bref nat
  | Bnd
  | Bol
  | Eol

definition Plus :: "re \<Rightarrow> re" where
  "Plus r = Seq r (Star r)"

definition Opt :: "re \<Rightarrow> re" where
  "Opt r = Alt r Eps"

fun Str :: "string \<Rightarrow> re" where
  "Str [] = Eps"
| "Str (c # cs) = Seq (Chr c) (Str cs)"

fun Seqs :: "re list \<Rightarrow> re" where
  "Seqs [] = Eps"
| "Seqs [r] = r"
| "Seqs (r # rs) = Seq r (Seqs rs)"

text \<open>
  The state of a match: the position, the character before it (for \<open>\b\<close>), the input
  that is left, and the text of each group captured so far.
\<close>

record mstate =
  m_pos :: nat
  m_prev :: "char option"
  m_rest :: string
  m_caps :: "(nat \<times> string) list"

definition m_advance :: "mstate \<Rightarrow> mstate" where
  "m_advance st = (case m_rest st of [] \<Rightarrow> st
     | x # xs \<Rightarrow> st\<lparr>m_pos := Suc (m_pos st), m_prev := Some x, m_rest := xs\<rparr>)"

definition m_wordBefore :: "mstate \<Rightarrow> bool" where
  "m_wordBefore st = (case m_prev st of None \<Rightarrow> False | Some c \<Rightarrow> isWordChar c)"

definition m_wordAfter :: "mstate \<Rightarrow> bool" where
  "m_wordAfter st = (case m_rest st of [] \<Rightarrow> False | c # _ \<Rightarrow> isWordChar c)"

definition m_cap :: "mstate \<Rightarrow> nat \<Rightarrow> string" where
  "m_cap st n = (case map_of (m_caps st) n of None \<Rightarrow> [] | Some s \<Rightarrow> s)"

text \<open>Consuming a literal text, as a back-reference does with what its group captured.\<close>

fun m_lit :: "string \<Rightarrow> mstate \<Rightarrow> mstate option" where
  "m_lit [] st = Some st"
| "m_lit (c # cs) st =
     (case m_rest st of [] \<Rightarrow> None
      | x # _ \<Rightarrow> if x = c then m_lit cs (m_advance st) else None)"

text \<open>
  Greedy iteration with backtracking: try one more round of the body (a round has to
  consume input), and only when everything after it fails go on without it. Each round
  consumes a character, so as many rounds as characters left are enough.
\<close>

primrec star ::
  "(mstate \<Rightarrow> (mstate \<Rightarrow> 'a option) \<Rightarrow> 'a option) \<Rightarrow> nat \<Rightarrow> mstate \<Rightarrow>
   (mstate \<Rightarrow> 'a option) \<Rightarrow> 'a option" where
  "star f 0 st k = k st"
| "star f (Suc n) st k =
     (case f st (\<lambda>st'. if m_pos st' > m_pos st then star f n st' k else None) of
        Some x \<Rightarrow> Some x
      | None \<Rightarrow> k st)"

primrec matches :: "re \<Rightarrow> mstate \<Rightarrow> (mstate \<Rightarrow> 'a option) \<Rightarrow> 'a option" where
  "matches Eps = (\<lambda>st k. k st)"
| "matches (Chr c) = (\<lambda>st k.
     case m_rest st of [] \<Rightarrow> None | x # _ \<Rightarrow> if x = c then k (m_advance st) else None)"
| "matches (Cls P) = (\<lambda>st k.
     case m_rest st of [] \<Rightarrow> None | x # _ \<Rightarrow> if P x then k (m_advance st) else None)"
| "matches (Seq r1 r2) = (\<lambda>st k. matches r1 st (\<lambda>st'. matches r2 st' k))"
| "matches (Alt r1 r2) = (\<lambda>st k.
     case matches r1 st k of Some x \<Rightarrow> Some x | None \<Rightarrow> matches r2 st k)"
| "matches (Star r) = (\<lambda>st k. star (matches r) (length (m_rest st)) st k)"
| "matches (Grp n r) = (\<lambda>st k.
     matches r st (\<lambda>st'.
       k (st'\<lparr>m_caps := (n, take (m_pos st' - m_pos st) (m_rest st)) # m_caps st'\<rparr>)))"
| "matches (Bref n) = (\<lambda>st k.
     case m_lit (m_cap st n) st of None \<Rightarrow> None | Some st' \<Rightarrow> k st')"
| "matches Bnd = (\<lambda>st k. if m_wordBefore st \<noteq> m_wordAfter st then k st else None)"
| "matches Bol = (\<lambda>st k. if m_pos st = 0 then k st else None)"
| "matches Eol = (\<lambda>st k. if m_rest st = [] then k st else None)"

text \<open>A match: where it starts and ends and what its groups captured.\<close>

record rmatch =
  r_start :: nat
  r_end :: nat
  r_groups :: "(nat \<times> string) list"

definition match_here :: "re \<Rightarrow> mstate \<Rightarrow> rmatch option" where
  "match_here r st =
     matches r (st\<lparr>m_caps := []\<rparr>)
       (\<lambda>st'. Some \<lparr>r_start = m_pos st, r_end = m_pos st', r_groups = m_caps st'\<rparr>)"

text \<open>The leftmost match at or after the state's position (at most \<open>n\<close> steps further).\<close>

primrec search_from :: "re \<Rightarrow> nat \<Rightarrow> mstate \<Rightarrow> rmatch option" where
  "search_from r 0 st = match_here r st"
| "search_from r (Suc n) st =
     (case match_here r st of Some x \<Rightarrow> Some x
      | None \<Rightarrow> if m_rest st = [] then None else search_from r n (m_advance st))"

definition m_init :: "string \<Rightarrow> mstate" where
  "m_init s = \<lparr>m_pos = 0, m_prev = None, m_rest = s, m_caps = []\<rparr>"

text \<open>\<open>re.exec(s)\<close> and \<open>re.test(s)\<close> of a regular expression whose \<open>lastIndex\<close> is 0.\<close>

definition re_exec :: "re \<Rightarrow> string \<Rightarrow> rmatch option" where
  "re_exec r s = search_from r (length s) (m_init s)"

definition re_test :: "re \<Rightarrow> string \<Rightarrow> bool" where
  "re_test r s \<longleftrightarrow> re_exec r s \<noteq> None"

definition r_group :: "rmatch \<Rightarrow> nat \<Rightarrow> string" where
  "r_group mt n = (case map_of (r_groups mt) n of None \<Rightarrow> [] | Some s \<Rightarrow> s)"

text \<open>
  The replacement patterns of \<open>String.prototype.replace\<close> for a regular expression with
  \<open>ngroups\<close> groups: \<open>$$\<close>, \<open>$&\<close>, the text before and after the match, and \<open>$n\<close>, \<open>$nn\<close>.
\<close>

definition digitVal :: "char \<Rightarrow> nat" where
  "digitVal c = charCode c - 48"

fun expand :: "nat \<Rightarrow> string \<Rightarrow> string \<Rightarrow> string \<Rightarrow> (nat \<Rightarrow> string) \<Rightarrow> string \<Rightarrow> string" where
  "expand ngroups matched pre post grp [] = []"
| "expand ngroups matched pre post grp [c] = [c]"
| "expand ngroups matched pre post grp (c # d # t) =
     (if c \<noteq> CHR ''$'' then c # expand ngroups matched pre post grp (d # t)
      else if d = CHR ''$'' then CHR ''$'' # expand ngroups matched pre post grp t
      else if d = CHR ''&'' then matched @ expand ngroups matched pre post grp t
      else if d = CHR 0x60 then pre @ expand ngroups matched pre post grp t
      else if d = CHR 0x27 then post @ expand ngroups matched pre post grp t
      else if isDigit d then
        (case t of
           e # t' \<Rightarrow>
             if isDigit e \<and> 1 \<le> digitVal d * 10 + digitVal e \<and>
                digitVal d * 10 + digitVal e \<le> ngroups
             then grp (digitVal d * 10 + digitVal e) @ expand ngroups matched pre post grp t'
             else if 1 \<le> digitVal d \<and> digitVal d \<le> ngroups
             then grp (digitVal d) @ expand ngroups matched pre post grp t
             else c # d # expand ngroups matched pre post grp t
         | [] \<Rightarrow>
             if 1 \<le> digitVal d \<and> digitVal d \<le> ngroups then grp (digitVal d)
             else [c, d])
      else c # expand ngroups matched pre post grp (d # t))"

text \<open>
  \<open>s.replace(re, template)\<close> for a regular expression with the \<open>g\<close> flag: every match from
  left to right, the search going on after each match (one character further after an
  empty one). The counter bounds the number of rounds by the length of the input.
\<close>

primrec replace_loop ::
  "re \<Rightarrow> nat \<Rightarrow> string \<Rightarrow> string \<Rightarrow> nat \<Rightarrow> mstate \<Rightarrow> string" where
  "replace_loop r ngroups template s 0 st = m_rest st"
| "replace_loop r ngroups template s (Suc n) st =
     (case search_from r (length (m_rest st)) st of
        None \<Rightarrow> m_rest st
      | Some mt \<Rightarrow>
          take (r_start mt - m_pos st) (m_rest st) @
          expand ngroups (take (r_end mt - r_start mt) (drop (r_start mt) s))
            (take (r_start mt) s) (drop (r_end mt) s) (r_group mt) template @
          (if r_end mt = r_start mt then
             (case drop (r_end mt) s of [] \<Rightarrow> []
              | x # xs \<Rightarrow> x # replace_loop r ngroups template s n
                  \<lparr>m_pos = Suc (r_end mt), m_prev = Some x, m_rest = xs, m_caps = []\<rparr>)
           else replace_loop r ngroups template s n
                  \<lparr>m_pos = r_end mt,
                   m_prev = (if r_end mt = 0 then None else Some (s ! (r_end mt - 1))),
                   m_rest = drop (r_end mt) s, m_caps = []\<rparr>))"

definition replace_all :: "re \<Rightarrow> nat \<Rightarrow> string \<Rightarrow> string \<Rightarrow> string" where
  "replace_all r ngroups template s = replace_loop r ngroups template s (Suc (length s)) (m_init s)"

text \<open>\<open>s.replace(re, template)\<close> without the \<open>g\<close> flag: the first match only.\<close>

definition replace_first :: "re \<Rightarrow> nat \<Rightarrow> string \<Rightarrow> string \<Rightarrow> string" where
  "replace_first r ngroups template s =
     (case re_exec r s of
        None \<Rightarrow> s
      | Some mt \<Rightarrow>
          take (r_start mt) s @
          expand ngroups (take (r_end mt - r_start mt) (drop (r_start mt) s))
            (take (r_start mt) s) (drop (r_end mt) s) (r_group mt) template @
          drop (r_end mt) s)"


section \<open>The source buffer and its mutators (BubbleScript.ts)\<close>

text \<open>What the mutators and the parser throw.\<close>

datatype error =
    VariableNotFound int
  | LocationNotFound string int
  | PatternNotFound string nat
  | TypeError
  | LineNumberTooSmall
  | LineNumberExceeds int nat
  | VariableNotInScopeManager string
  | NoBubblesInFactory

text \<open>
  The part of a \<open>BubbleScript\<close> object the mutators read and write: the current source,
  the source it was built from, and the maps from \<open>Variable.$id\<close> to the variable and to
  the location of its first definition, both as the last parse left them.
\<close>

record bubbleScript =
  currentBubbleScript :: string
  bubbleScript :: string
  scriptVariables :: "int \<rightharpoonup> variable"
  variableLocations :: "int \<rightharpoonup> location"

text \<open>
  The two patterns of \<open>reassignVariable\<close>. \<open>escapeRegExp\<close> makes the name match itself, so
  the name stands in the pattern as a literal text.
  \<^verbatim>\<open>(\b(?:const|let|var)\s+NAME\s*=\s*)([^;,\n]+)\<close> and
  \<^verbatim>\<open>(\bNAME\s*=\s*)([^;,\n]+)\<close>, both with the \<open>g\<close> flag.
\<close>

definition valueChar :: "char \<Rightarrow> bool" where
  "valueChar c \<longleftrightarrow> c \<noteq> CHR '';'' \<and> c \<noteq> CHR '','' \<and> c \<noteq> NL"

definition variablePattern :: "string \<Rightarrow> re" where
  "variablePattern name =
     Seq (Grp 1 (Seqs [Bnd, Alt (Str ''const'') (Alt (Str ''let'') (Str ''var'')),
                       Plus (Cls isSpace), Str name, Star (Cls isSpace), Chr (CHR ''=''),
                       Star (Cls isSpace)]))
         (Grp 2 (Plus (Cls valueChar)))"

definition assignmentPattern :: "string \<Rightarrow> re" where
  "assignmentPattern name =
     Seq (Grp 1 (Seqs [Bnd, Str name, Star (Cls isSpace), Chr (CHR ''=''), Star (Cls isSpace)]))
         (Grp 2 (Plus (Cls valueChar)))"

text \<open>
  \<open>reassignVariable\<close>. The result is what the call returns or throws, with the object as the
  call leaves it. \<open>lines[lineIndex]\<close> is \<open>undefined\<close> outside the array; \<open>test\<close> then looks at
  the text \<open>undefined\<close>, and \<open>replace\<close> on \<open>undefined\<close> would be a \<open>TypeError\<close>.
\<close>

definition reassignLine ::
  "bubbleScript \<Rightarrow> string list \<Rightarrow> nat \<Rightarrow> string \<Rightarrow> (error + string) \<times> bubbleScript" where
  "reassignLine bs lines lineIndex newLine =
     (let script = join [NL] (lines[lineIndex := newLine])
      in (Inr script, bs\<lparr>currentBubbleScript := script\<rparr>))"

definition reassignVariable ::
  "bubbleScript \<Rightarrow> int \<Rightarrow> string \<Rightarrow> (error + string) \<times> bubbleScript" where
  "reassignVariable bs variableId newValue =
     (case scriptVariables bs variableId of
        None \<Rightarrow> (Inl (VariableNotFound variableId), bs)
      | Some v \<Rightarrow>
          (case variableLocations bs variableId of
             None \<Rightarrow> (Inl (LocationNotFound (var_name v) variableId), bs)
           | Some location \<Rightarrow>
               (let lines = split_on NL (currentBubbleScript bs);
                    inRange = (1 \<le> startLine location \<and> startLine location \<le> length lines);
                    lineIndex = startLine location - 1;
                    subject = (if inRange then lines ! lineIndex else ''undefined'')
                in if re_test (variablePattern (var_name v)) subject then
                     (if inRange then
                        reassignLine bs lines lineIndex
                          (replace_all (variablePattern (var_name v)) 2 (''$1'' @ newValue) subject)
                      else (Inl TypeError, bs))
                   else if re_test (assignmentPattern (var_name v)) subject then
                     (if inRange then
                        reassignLine bs lines lineIndex
                          (replace_all (assignmentPattern (var_name v)) 2 (''$1'' @ newValue) subject)
                      else (Inl TypeError, bs))
                   else (Inl (PatternNotFound (var_name v) (startLine location)), bs))))"

text \<open>
  \<open>injectLines\<close>: \<open>splice(insertIndex, 0, ...lines)\<close> puts the new lines before the line at
  \<open>insertIndex\<close>; an index equal to the number of lines appends them.
\<close>

definition injectLines ::
  "bubbleScript \<Rightarrow> string list \<Rightarrow> int \<Rightarrow> (error + string) \<times> bubbleScript" where
  "injectLines bs lines lineNumber =
     (if lineNumber < 1 then (Inl LineNumberTooSmall, bs)
      else
        (let scriptLines = split_on NL (currentBubbleScript bs);
             insertIndex = nat (lineNumber - 1)
         in if insertIndex > length scriptLines
            then (Inl (LineNumberExceeds lineNumber (length scriptLines)), bs)
            else
              (let script = join [NL] (take insertIndex scriptLines @ lines @
                                       drop insertIndex scriptLines)
               in (Inr script, bs\<lparr>currentBubbleScript := script\<rparr>))))"

text \<open>Line \<open>n\<close> (1-based) of a text, when it has one.\<close>

definition lineOf :: "string \<Rightarrow> nat \<Rightarrow> string option" where
  "lineOf s n =
     (if 1 \<le> n \<and> n \<le> length (split_on NL s) then Some (split_on NL s ! (n - 1)) else None)"

subsection \<open>A small script object\<close>

text \<open>
  The object of the two-line script
  \<^verbatim>\<open>function f(x) {\<close> / \<^verbatim>\<open>let b = 2; }\<close>: the parameter \<open>x\<close> is defined on line 1, \<open>b\<close> on
  line 2.
\<close>

definition c9_x :: variable where
  "c9_x = \<lparr>var_id = 1, var_name = ''x'',
     var_defs = [Some \<lparr>startLine = 1, startCol = 0, endLine = 2, endCol = 12\<rparr>],
     var_scope_type = ''function''\<rparr>"

definition c9_b :: variable where
  "c9_b = \<lparr>var_id = 2, var_name = ''b'',
     var_defs = [Some \<lparr>startLine = 2, startCol = 4, endLine = 2, endCol = 9\<rparr>],
     var_scope_type = ''function''\<rparr>"

definition c9_script :: bubbleScript where
  "c9_script = \<lparr>currentBubbleScript = ''function f(x) {'' @ [NL] @ ''let b = 2; }'',
     bubbleScript = ''function f(x) {'' @ [NL] @ ''let b = 2; }'',
     scriptVariables = [1 \<mapsto> c9_x, 2 \<mapsto> c9_b],
     variableLocations = [1 \<mapsto> \<lparr>startLine = 1, startCol = 0, endLine = 2, endCol = 12\<rparr>,
                          2 \<mapsto> \<lparr>startLine = 2, startCol = 4, endLine = 2, endCol = 9\<rparr>]\<rparr>"

section \<open>The dependency graph of a bubble (BubbleParser)\<close>

subsection \<open>Numbers as text\<close>

definition digitChar :: "nat \<Rightarrow> char" where
  "digitChar d = ''0123456789'' ! d"

fun showNat :: "nat \<Rightarrow> string" where
  "showNat n = (if n < 10 then [digitChar n] else showNat (n div 10) @ [digitChar (n mod 10)])"

declare showNat.simps [simp del]

definition showInt :: "int \<Rightarrow> string" where
  "showInt i = (if i < 0 then CHR ''-'' # showNat (nat (- i)) else showNat (nat i))"

subsection \<open>The hash of a unique id\<close>

text \<open>
  JavaScript numbers are doubles. \<open>hash ^= code\<close> works on the 32-bit signed value of its
  operands; \<open>hash * 16777619\<close> is a double product, which is the exact product rounded to
  53 significant bits (to nearest, ties to even) when it is that large; \<open>>>> 0\<close> takes the
  result modulo \<open>2^32\<close>. All of these are integers, so the rounding is modelled on \<open>int\<close>.
\<close>

function bitlen :: "int \<Rightarrow> nat" where
  "bitlen n = (if n \<le> 0 then 0 else Suc (bitlen (n div 2)))"
  by pat_completeness auto
termination
  by (relation "measure nat") auto

declare bitlen.simps [simp del]

definition roundToDouble :: "int \<Rightarrow> int" where
  "roundToDouble p =
     (let a = \<bar>p\<bar>; b = bitlen a in
      if b \<le> 53 then p
      else
        (let e = b - 53; q = a div 2 ^ e; r = a mod 2 ^ e; half = 2 ^ (e - 1);
             q' = (if r > half \<or> (r = half \<and> odd q) then q + 1 else q)
         in sgn p * (q' * 2 ^ e)))"

definition toInt32 :: "int \<Rightarrow> int" where
  "toInt32 x = (x + 2147483648) mod 4294967296 - 2147483648"

definition toUint32 :: "int \<Rightarrow> int" where
  "toUint32 x = x mod 4294967296"

definition hashStep :: "int \<Rightarrow> char \<Rightarrow> int" where
  "hashStep hash c =
     toUint32 (roundToDouble (xor (toInt32 hash) (int (charCode c)) * 16777619))"

definition hashUniqueIdToVarId :: "string \<Rightarrow> int" where
  "hashUniqueIdToVarId input = 100000 + foldl hashStep 2166136261 input mod 900000"

subsection \<open>The registry\<close>

text \<open>
  What \<open>bubbleFactory.getMetadata(name)\<close> gives of a registered bubble: its type, its
  detailed dependency specs (each with a name, for an ai-agent its tools, and its named
  instances) and its flat dependency list. The factory is a finite table.
\<close>

record dependencySpec =
  spec_name :: string
  spec_tools :: "string list option"
  spec_instances :: "string option list option"

record metadata =
  meta_type :: "string option"
  bubbleDependenciesDetailed :: "dependencySpec list option"
  bubbleDependencies :: "string list option"

type_synonym bubbleFactory = "(string \<times> metadata) list"

definition getMetadata :: "bubbleFactory \<Rightarrow> string \<Rightarrow> metadata option" where
  "getMetadata factory name = map_of factory name"

definition nodeTypeOf :: "bubbleFactory \<Rightarrow> string \<Rightarrow> string" where
  "nodeTypeOf factory name =
     (case getMetadata factory name of
        None \<Rightarrow> ''unknown''
      | Some md \<Rightarrow> (case meta_type md of None \<Rightarrow> ''unknown''
                    | Some t \<Rightarrow> if t = [] then ''unknown'' else t))"

datatype dependencyGraphNode =
  DependencyGraphNode (dg_name: string) (dg_nodeType: string) (dg_uniqueId: string)
    (dg_variableId: int) (dg_variableName: "string option")
    (dg_dependencies: "dependencyGraphNode list")

text \<open>
  \<open>ordinalCounters\<close> is one \<open>Map\<close> shared by all the calls that build a graph, so every call
  takes it and hands it on. \<open>nextOrdinal\<close> is \<open>(ordinalCounters.get(key) || 0) + 1\<close>.
\<close>

type_synonym ordinalCounters = "string \<rightharpoonup> nat"

definition nextOrdinal :: "ordinalCounters \<Rightarrow> string \<Rightarrow> nat" where
  "nextOrdinal oc key = (case oc key of None \<Rightarrow> 0 | Some n \<Rightarrow> n) + 1"

definition countKey :: "string \<Rightarrow> string \<Rightarrow> string" where
  "countKey parentUniqueId bubbleName = parentUniqueId @ ''|'' @ bubbleName"

definition childUniqueId :: "string \<Rightarrow> string \<Rightarrow> nat \<Rightarrow> string" where
  "childUniqueId parentUniqueId bubbleName ordinal =
     (if parentUniqueId \<noteq> [] then parentUniqueId @ ''.'' @ bubbleName @ ''#'' @ showNat ordinal
      else bubbleName @ ''#'' @ showNat ordinal)"

text \<open>
  A call of \<open>buildDependencyGraph\<close>: the bubble name, the names on the path to it, the tools
  of this node, the parent's unique id, the explicit variable id, whether the node's own
  segment is left out of the unique id, and the instance's variable name.
  (\<open>usedVariableIds\<close> is handed down by the code and never read.)
\<close>

record graphCall =
  gc_bubbleName :: string
  gc_seen :: "string set"
  gc_toolsForThisNode :: "string list option"
  gc_parentUniqueId :: string
  gc_explicitVariableId :: "int option"
  gc_suppressSelfSegment :: bool
  gc_instanceVariableName :: "string option"

type_synonym graphBuilder =
  "graphCall \<Rightarrow> ordinalCounters \<Rightarrow> (dependencyGraphNode \<times> ordinalCounters) option"

text \<open>The loops of the body, over the function \<open>build\<close> that the recursive calls go to.\<close>

fun buildEach ::
  "graphBuilder \<Rightarrow> graphCall list \<Rightarrow> ordinalCounters \<Rightarrow>
   (dependencyGraphNode list \<times> ordinalCounters) option" where
  "buildEach build [] oc = Some ([], oc)"
| "buildEach build (c # cs) oc =
     (case build c oc of
        None \<Rightarrow> None
      | Some (node, oc') \<Rightarrow>
          (case buildEach build cs oc' of
             None \<Rightarrow> None
           | Some (nodes, oc'') \<Rightarrow> Some (node # nodes, oc'')))"

definition toolCall :: "string set \<Rightarrow> string \<Rightarrow> string \<Rightarrow> graphCall" where
  "toolCall nextSeen parentId toolName =
     \<lparr>gc_bubbleName = toolName, gc_seen = nextSeen, gc_toolsForThisNode = None,
      gc_parentUniqueId = parentId, gc_explicitVariableId = None,
      gc_suppressSelfSegment = False, gc_instanceVariableName = Some toolName\<rparr>"

text \<open>
  One round of the loop over the instances of a spec: either the synthesized ai-agent node
  with its tools as children, or the recursive call for the child.
\<close>

definition buildInstance ::
  "bubbleFactory \<Rightarrow> graphBuilder \<Rightarrow> string set \<Rightarrow> string \<Rightarrow> dependencySpec \<Rightarrow>
   string option \<Rightarrow> ordinalCounters \<Rightarrow> (dependencyGraphNode \<times> ordinalCounters) option" where
  "buildInstance factory build nextSeen uniqueId spec instVarName oc =
     (let childName = spec_name spec;
          toolsForChild = (if childName = ''ai-agent'' then spec_tools spec else None)
      in
        (case (if childName = ''ai-agent'' \<and> ''ai-agent'' \<in> nextSeen then toolsForChild
               else None) of
           Some tools \<Rightarrow>
             (let aiCountKey = countKey uniqueId ''ai-agent'';
                  aiOrdinal = nextOrdinal oc aiCountKey;
                  oc1 = oc(aiCountKey \<mapsto> aiOrdinal);
                  aiAgentUniqueId = uniqueId @ ''.ai-agent#'' @ showNat aiOrdinal
              in
                (case buildEach build (map (toolCall nextSeen aiAgentUniqueId) tools) oc1 of
                   None \<Rightarrow> None
                 | Some (toolChildren, oc2) \<Rightarrow>
                     Some (DependencyGraphNode ''ai-agent'' (nodeTypeOf factory childName)
                             aiAgentUniqueId (hashUniqueIdToVarId aiAgentUniqueId)
                             instVarName toolChildren, oc2)))
         | None \<Rightarrow>
             build \<lparr>gc_bubbleName = childName, gc_seen = nextSeen,
                    gc_toolsForThisNode = toolsForChild, gc_parentUniqueId = uniqueId,
                    gc_explicitVariableId = None, gc_suppressSelfSegment = False,
                    gc_instanceVariableName = instVarName\<rparr> oc))"

fun buildInstances ::
  "bubbleFactory \<Rightarrow> graphBuilder \<Rightarrow> string set \<Rightarrow> string \<Rightarrow> dependencySpec \<Rightarrow>
   string option list \<Rightarrow> ordinalCounters \<Rightarrow>
   (dependencyGraphNode list \<times> ordinalCounters) option" where
  "buildInstances factory build nextSeen uniqueId spec [] oc = Some ([], oc)"
| "buildInstances factory build nextSeen uniqueId spec (iv # ivs) oc =
     (case buildInstance factory build nextSeen uniqueId spec iv oc of
        None \<Rightarrow> None
      | Some (node, oc') \<Rightarrow>
          (case buildInstances factory build nextSeen uniqueId spec ivs oc' of
             None \<Rightarrow> None
           | Some (nodes, oc'') \<Rightarrow> Some (node # nodes, oc'')))"

text \<open>
  The variable names of the rounds for one spec: those of its instances, or one round
  without a name when it has none.
\<close>

definition instanceNames :: "dependencySpec \<Rightarrow> string option list" where
  "instanceNames spec =
     (case spec_instances spec of
        None \<Rightarrow> [None]
      | Some ivs \<Rightarrow> if ivs = [] then [None] else ivs)"

fun buildSpecs ::
  "bubbleFactory \<Rightarrow> graphBuilder \<Rightarrow> string set \<Rightarrow> string \<Rightarrow> dependencySpec list \<Rightarrow>
   ordinalCounters \<Rightarrow> (dependencyGraphNode list \<times> ordinalCounters) option" where
  "buildSpecs factory build nextSeen uniqueId [] oc = Some ([], oc)"
| "buildSpecs factory build nextSeen uniqueId (spec # specs) oc =
     (case buildInstances factory build nextSeen uniqueId spec (instanceNames spec) oc of
        None \<Rightarrow> None
      | Some (nodes, oc') \<Rightarrow>
          (case buildSpecs factory build nextSeen uniqueId specs oc' of
             None \<Rightarrow> None
           | Some (nodes', oc'') \<Rightarrow> Some (nodes @ nodes', oc'')))"

definition directCall :: "string set \<Rightarrow> string \<Rightarrow> string \<Rightarrow> graphCall" where
  "directCall nextSeen uniqueId dep =
     \<lparr>gc_bubbleName = dep, gc_seen = nextSeen, gc_toolsForThisNode = None,
      gc_parentUniqueId = uniqueId, gc_explicitVariableId = None,
      gc_suppressSelfSegment = False,
      gc_instanceVariableName = Some ''No bubble detail dependency''\<rparr>"

text \<open>
  The children that come from the registry: the detailed specs when there are any, the
  flat dependency list otherwise.
\<close>

definition registryChildren ::
  "bubbleFactory \<Rightarrow> graphBuilder \<Rightarrow> string \<Rightarrow> string set \<Rightarrow> string \<Rightarrow>
   ordinalCounters \<Rightarrow> (dependencyGraphNode list \<times> ordinalCounters) option" where
  "registryChildren factory build bubbleName nextSeen uniqueId oc =
     (let metadata = getMetadata factory bubbleName;
          detailed = (case metadata of None \<Rightarrow> None
                      | Some md \<Rightarrow> bubbleDependenciesDetailed md);
          directDeps = (case metadata of None \<Rightarrow> []
                        | Some md \<Rightarrow> (case bubbleDependencies md of None \<Rightarrow> []
                                      | Some ds \<Rightarrow> ds))
      in
        (case detailed of
           Some (spec # specs) \<Rightarrow> buildSpecs factory build nextSeen uniqueId (spec # specs) oc
         | _ \<Rightarrow> buildEach build (map (directCall nextSeen uniqueId) directDeps) oc))"

text \<open>The children for the tools an ai-agent node was given, those on the path left out.\<close>

definition ownToolChildren ::
  "graphBuilder \<Rightarrow> string \<Rightarrow> string list option \<Rightarrow> string set \<Rightarrow> string \<Rightarrow>
   ordinalCounters \<Rightarrow> (dependencyGraphNode list \<times> ordinalCounters) option" where
  "ownToolChildren build bubbleName toolsForThisNode nextSeen uniqueId oc =
     (if bubbleName = ''ai-agent'' then
        (case toolsForThisNode of
           None \<Rightarrow> Some ([], oc)
         | Some tools \<Rightarrow>
             buildEach build
               (map (toolCall nextSeen uniqueId) (filter (\<lambda>t. t \<notin> nextSeen) tools)) oc)
      else Some ([], oc))"

text \<open>The unique id and the variable id of a call's node, computed before anything else.\<close>

definition nodeOrdinal :: "graphCall \<Rightarrow> ordinalCounters \<Rightarrow> nat" where
  "nodeOrdinal call oc = nextOrdinal oc (countKey (gc_parentUniqueId call) (gc_bubbleName call))"

definition nodeUniqueId :: "graphCall \<Rightarrow> ordinalCounters \<Rightarrow> string" where
  "nodeUniqueId call oc =
     (if gc_suppressSelfSegment call then gc_parentUniqueId call
      else childUniqueId (gc_parentUniqueId call) (gc_bubbleName call) (nodeOrdinal call oc))"

definition nodeVariableId :: "graphCall \<Rightarrow> ordinalCounters \<Rightarrow> int" where
  "nodeVariableId call oc =
     (case gc_explicitVariableId call of
        Some i \<Rightarrow> i
      | None \<Rightarrow> hashUniqueIdToVarId (nodeUniqueId call oc))"

definition countNode :: "graphCall \<Rightarrow> ordinalCounters \<Rightarrow> ordinalCounters" where
  "countNode call oc =
     oc(countKey (gc_parentUniqueId call) (gc_bubbleName call) \<mapsto> nodeOrdinal call oc)"

text \<open>The body of \<open>buildDependencyGraph\<close>.\<close>

definition buildNode :: "bubbleFactory \<Rightarrow> graphBuilder \<Rightarrow> graphBuilder" where
  "buildNode factory build call oc =
     (let bubbleName = gc_bubbleName call;
          uniqueId = nodeUniqueId call oc;
          variableId = nodeVariableId call oc;
          oc1 = countNode call oc
      in
        if bubbleName \<in> gc_seen call then
          Some (DependencyGraphNode bubbleName (nodeTypeOf factory bubbleName) uniqueId
                  variableId (gc_instanceVariableName call) [], oc1)
        else
          (let nextSeen = insert bubbleName (gc_seen call) in
             (case registryChildren factory build bubbleName nextSeen uniqueId oc1 of
                None \<Rightarrow> None
              | Some (children, oc2) \<Rightarrow>
                  (case ownToolChildren build bubbleName (gc_toolsForThisNode call)
                          nextSeen uniqueId oc2 of
                     None \<Rightarrow> None
                   | Some (toolNodes, oc3) \<Rightarrow>
                       Some (DependencyGraphNode bubbleName (nodeTypeOf factory bubbleName)
                               uniqueId variableId (gc_instanceVariableName call)
                               (children @ toolNodes), oc3)))))"

text \<open>
  \<open>buildDependencyGraph\<close> with a bound on the depth of the recursion: \<open>None\<close> says that the
  bound was reached.
\<close>

primrec buildDependencyGraph :: "nat \<Rightarrow> bubbleFactory \<Rightarrow> graphBuilder" where
  "buildDependencyGraph 0 factory = (\<lambda>call oc. None)"
| "buildDependencyGraph (Suc n) factory = buildNode factory (buildDependencyGraph n factory)"

text \<open>The names a graph can expand, and a depth that is always enough.\<close>

definition expandable :: "bubbleFactory \<Rightarrow> string set" where
  "expandable factory = insert ''ai-agent'' (fst ` set factory)"

definition enoughDepth :: "bubbleFactory \<Rightarrow> string set \<Rightarrow> nat" where
  "enoughDepth factory seen = Suc (card (expandable factory - seen))"

text \<open>
  Two builders agree on a set of names when they give the same result, and a result, for
  every call whose path is that set. The body of \<open>buildDependencyGraph\<close> only calls its
  builder with the path extended by the node's own name, so it cannot tell two builders
  apart that agree there.
\<close>

definition agree :: "graphBuilder \<Rightarrow> graphBuilder \<Rightarrow> string set \<Rightarrow> bool" where
  "agree b1 b2 S \<longleftrightarrow>
     (\<forall>call oc. gc_seen call = S \<longrightarrow> b1 call oc = b2 call oc \<and> b2 call oc \<noteq> None)"

subsection \<open>A registry in which a tool of an ai-agent owns an ai-agent\<close>

text \<open>
  Three registered bubbles: \<open>ai-agent\<close>, \<open>web-search-tool\<close>, and \<open>research-agent-tool\<close>,
  whose one detailed dependency is an \<open>ai-agent\<close> with the tool \<open>web-search-tool\<close>. The
  call is the one \<open>parseBubblesFromAST\<close> makes for an ai-agent bubble with variable id 5,
  variable name \<open>agent\<close> and the configured tool \<open>research-agent-tool\<close>.
\<close>

definition c8_factory :: bubbleFactory where
  "c8_factory =
     [(''ai-agent'', \<lparr>meta_type = Some ''service'', bubbleDependenciesDetailed = None,
                       bubbleDependencies = None\<rparr>),
      (''research-agent-tool'',
         \<lparr>meta_type = Some ''tool'',
          bubbleDependenciesDetailed =
            Some [\<lparr>spec_name = ''ai-agent'', spec_tools = Some [''web-search-tool''],
                   spec_instances = None\<rparr>],
          bubbleDependencies = Some [''ai-agent'']\<rparr>),
      (''web-search-tool'', \<lparr>meta_type = Some ''tool'', bubbleDependenciesDetailed = None,
                              bubbleDependencies = None\<rparr>)]"

definition c8_call :: graphCall where
  "c8_call =
     \<lparr>gc_bubbleName = ''ai-agent'', gc_seen = {},
      gc_toolsForThisNode = Some [''research-agent-tool''], gc_parentUniqueId = ''5'',
      gc_explicitVariableId = Some 5, gc_suppressSelfSegment = True,
      gc_instanceVariableName = Some ''agent''\<rparr>"

definition c8_graph :: dependencyGraphNode where
  "c8_graph =
     DependencyGraphNode ''ai-agent'' ''service'' ''5'' 5 (Some ''agent'')
       [DependencyGraphNode ''research-agent-tool'' ''tool'' ''5.research-agent-tool#1''
          (hashUniqueIdToVarId ''5.research-agent-tool#1'') (Some ''research-agent-tool'')
          [DependencyGraphNode ''ai-agent'' ''service'' ''5.research-agent-tool#1.ai-agent#1''
             (hashUniqueIdToVarId ''5.research-agent-tool#1.ai-agent#1'') None
             [DependencyGraphNode ''web-search-tool'' ''tool''
                ''5.research-agent-tool#1.ai-agent#1.web-search-tool#1''
                (hashUniqueIdToVarId ''5.research-agent-tool#1.ai-agent#1.web-search-tool#1'')
                (Some ''web-search-tool'') []]]]"

section \<open>The comment above a node (BubbleParser.extractCommentForNode)\<close>

text \<open>
  The lines above the node are read upwards, from the line just before it. Every line is
  trimmed first; a line the array does not have reads as empty. \<open>scanComments lines n acc blk\<close>
  is the loop at \<open>currentLine = n\<close> with the comment lines collected so far and the block
  comment flag.
\<close>

definition isLineComment :: "string \<Rightarrow> bool" where
  "isLineComment line \<longleftrightarrow> startsWith line ''//''"

definition isBlockCommentLine :: "string \<Rightarrow> bool" where
  "isBlockCommentLine line \<longleftrightarrow>
     startsWith line ''*'' \<or> startsWith line ''/**'' \<or> startsWith line ''/*'' \<or>
     endsWith line ''*/''"

fun scanComments :: "string list \<Rightarrow> nat \<Rightarrow> string list \<Rightarrow> bool \<Rightarrow> string list \<times> bool" where
  "scanComments lines 0 acc blk = (acc, blk)"
| "scanComments lines (Suc n) acc blk =
     (let line = (if n < length lines then trim (lines ! n) else [])
      in if line = [] then (if acc \<noteq> [] then (acc, blk) else scanComments lines n acc blk)
         else if isLineComment line then scanComments lines n (line # acc) blk
         else if isBlockCommentLine line then scanComments lines n (line # acc) True
         else (acc, blk))"

text \<open>
  The regular expressions that clean the collected text:
  \<^verbatim>\<open>/^\/\*\*?\s*/\<close>, \<^verbatim>\<open>/\s*\*\/\s*$/\<close>, \<^verbatim>\<open>/^\s*\*\s?/\<close> and \<^verbatim>\<open>/^\/\/\s?/\<close>.
\<close>

definition blockOpening :: re where
  "blockOpening = Seqs [Bol, Str ''/*'', Opt (Chr (CHR ''*'')), Star (Cls isSpace)]"

definition blockClosing :: re where
  "blockClosing = Seqs [Star (Cls isSpace), Str ''*/'', Star (Cls isSpace), Eol]"

definition starPrefix :: re where
  "starPrefix = Seqs [Bol, Star (Cls isSpace), Chr (CHR ''*''), Opt (Cls isSpace)]"

definition slashPrefix :: re where
  "slashPrefix = Seqs [Bol, Str ''//'', Opt (Cls isSpace)]"

definition joinCleaned :: "string list \<Rightarrow> string" where
  "joinCleaned ls = trim (join '' '' (filter (\<lambda>l. l \<noteq> []) ls))"

definition cleanBlockComment :: "string \<Rightarrow> string" where
  "cleanBlockComment fullComment =
     joinCleaned
       (map (\<lambda>line. trim (replace_first starPrefix 0 [] line))
          (split_on NL
             (replace_first blockClosing 0 []
                (replace_first blockOpening 0 [] fullComment))))"

definition cleanLineComments :: "string \<Rightarrow> string" where
  "cleanLineComments fullComment =
     joinCleaned
       (map (\<lambda>line. trim (replace_first slashPrefix 0 [] line)) (split_on NL fullComment))"

text \<open>
  \<open>extractCommentForNode\<close>, of the script and the line on which the node starts
  (\<open>node.loc?.start.line\<close>, absent or 0 gives \<open>undefined\<close>).
\<close>

definition extractCommentForLine :: "string \<Rightarrow> nat option \<Rightarrow> string option" where
  "extractCommentForLine script nodeLine =
     (case nodeLine of
        None \<Rightarrow> None
      | Some l \<Rightarrow>
          if l = 0 then None
          else
            (case scanComments (split_on NL script) (l - 1) [] False of
               (commentLines, isBlockComment) \<Rightarrow>
                 if commentLines = [] then None
                 else
                   (let fullComment = join [NL] commentLines;
                        cleaned = (if isBlockComment then cleanBlockComment fullComment
                                   else cleanLineComments fullComment)
                    in if cleaned = [] then None else Some cleaned)))"




section \<open>The syntax tree (typescript-estree)\<close>

text \<open>
  A node of the tree is an object with a \<open>type\<close>, a \<open>loc\<close>, a \<open>range\<close> and further properties in
  the order in which the parser wrote them. A property holds a node, an array of nodes (with
  \<open>null\<close> for a hole), a string, a number, a boolean, \<open>null\<close>, or something else that is no
  node (a \<open>RegExp\<close>, a bigint). The code reaches into the tree by property name, and its
  visitors walk over all properties, so the tree is kept in this form.
\<close>

datatype node =
  Node (ntype: string) (nloc: "location option") (nrange: "nat \<times> nat")
       (nprops: "(string \<times> pval) list")
and pval =
    PNode node
  | PNodes "node option list"
  | PStr string
  | PNum rat
  | PBool bool
  | PNull
  | POther

definition getProp :: "node \<Rightarrow> string \<Rightarrow> pval option" where
  "getProp n k = map_of (nprops n) k"

text \<open>\<open>n.k\<close> when it is a node, and \<open>n.k\<close> when it is an array of nodes.\<close>

definition child :: "node \<Rightarrow> string \<Rightarrow> node option" where
  "child n k = (case getProp n k of Some (PNode c) \<Rightarrow> Some c | _ \<Rightarrow> None)"

definition childList :: "node \<Rightarrow> string \<Rightarrow> node option list" where
  "childList n k = (case getProp n k of Some (PNodes cs) \<Rightarrow> cs | _ \<Rightarrow> [])"

definition someNodes :: "node option list \<Rightarrow> node list" where
  "someNodes cs = List.map_filter id cs"

definition strProp :: "node \<Rightarrow> string \<Rightarrow> string option" where
  "strProp n k = (case getProp n k of Some (PStr s) \<Rightarrow> Some s | _ \<Rightarrow> None)"

definition boolProp :: "node \<Rightarrow> string \<Rightarrow> bool" where
  "boolProp n k = (case getProp n k of Some (PBool b) \<Rightarrow> b | _ \<Rightarrow> False)"

definition nodeName :: "node \<Rightarrow> string" where
  "nodeName n = (case strProp n ''name'' of Some s \<Rightarrow> s | None \<Rightarrow> [])"

definition childType :: "node \<Rightarrow> string \<Rightarrow> string option" where
  "childType n k = map_option ntype (child n k)"

text \<open>The nodes a visitor finds under a node: property by property, arrays in order.\<close>

fun pvalNodes :: "pval \<Rightarrow> node list" where
  "pvalNodes (PNode c) = [c]"
| "pvalNodes (PNodes cs) = someNodes cs"
| "pvalNodes _ = []"

definition children :: "node \<Rightarrow> node list" where
  "children n = concat (map (\<lambda>(k, v). pvalNodes v) (nprops n))"

text \<open>\<open>node.loc?.start.line\<close>, and the same with \<open>|| 0\<close>.\<close>

definition startLineOf :: "node \<Rightarrow> nat option" where
  "startLineOf n = map_option startLine (nloc n)"

definition lineOrZero :: "node \<Rightarrow> nat" where
  "lineOrZero n = (case nloc n of None \<Rightarrow> 0 | Some l \<Rightarrow> startLine l)"

definition locationOrZero :: "node \<Rightarrow> location" where
  "locationOrZero n =
     (case nloc n of
        None \<Rightarrow> \<lparr>startLine = 0, startCol = 0, endLine = 0, endCol = 0\<rparr>
      | Some l \<Rightarrow> l)"

text \<open>
  \<open>s.substring(a, b)\<close>, and the source text of a node,
  \<open>bubbleScript.substring(node.range[0], node.range[1])\<close>.
\<close>

definition substring :: "string \<Rightarrow> nat \<Rightarrow> nat \<Rightarrow> string" where
  "substring s a b =
     (let a' = min a (length s); b' = min b (length s)
      in take (max a' b' - min a' b') (drop (min a' b') s))"

definition srcText :: "string \<Rightarrow> node \<Rightarrow> string" where
  "srcText script n = substring script (fst (nrange n)) (snd (nrange n))"

text \<open>A node that is reached through a property is smaller than the node that has it.\<close>

lemma size_pvalNodes: "c \<in> set (pvalNodes v) \<Longrightarrow> size c < size v"
proof (cases v)
  case (PNodes cs)
  assume "c \<in> set (pvalNodes v)"
  with PNodes have "Some c \<in> set cs"
    by (auto simp: someNodes_def List.map_filter_def)
  then have "size_option size (Some c) \<le> size_list (size_option size) cs"
    by (simp add: size_list_estimation')
  with PNodes show ?thesis by simp
qed auto

lemma size_prop: "(k, v) \<in> set ps \<Longrightarrow> size v < size (Node t l r ps)"
proof -
  assume "(k, v) \<in> set ps"
  then have "size_prod (\<lambda>_. 0) size (k, v) \<le> size_list (size_prod (\<lambda>_. 0) size) ps"
    by (simp add: size_list_estimation')
  then show ?thesis by simp
qed

lemma size_children: "c \<in> set (children n) \<Longrightarrow> size c < size n"
proof -
  assume a: "c \<in> set (children n)"
  obtain t l r ps where n: "n = Node t l r ps" by (cases n)
  from a n obtain k v where kv: "(k, v) \<in> set ps" and c: "c \<in> set (pvalNodes v)"
    by (auto simp: children_def)
  from size_pvalNodes[OF c] size_prop[OF kv, of t l r] n show ?thesis by simp
qed

lemma size_child: "child n k = Some c \<Longrightarrow> size c < size n"
proof -
  assume a: "child n k = Some c"
  obtain t l r ps where n: "n = Node t l r ps" by (cases n)
  have "map_of ps k = Some (PNode c)"
  proof (cases "map_of ps k")
    case None
    with a n show ?thesis by (simp add: child_def getProp_def)
  next
    case (Some v)
    with a n show ?thesis by (cases v) (simp_all add: child_def getProp_def)
  qed
  then have "(k, PNode c) \<in> set ps" by (rule map_of_SomeD)
  from size_prop[OF this, of t l r] n show ?thesis by simp
qed

lemma size_childList: "Some c \<in> set (childList n k) \<Longrightarrow> size c < size n"
proof -
  assume a: "Some c \<in> set (childList n k)"
  obtain t l r ps where n: "n = Node t l r ps" by (cases n)
  have "\<exists>cs. map_of ps k = Some (PNodes cs) \<and> Some c \<in> set cs"
  proof (cases "map_of ps k")
    case None
    with a n show ?thesis by (simp add: childList_def getProp_def)
  next
    case (Some v)
    with a n show ?thesis by (cases v) (simp_all add: childList_def getProp_def)
  qed
  then obtain cs where m: "map_of ps k = Some (PNodes cs)" and c: "Some c \<in> set cs"
    by blast
  from m have kv: "(k, PNodes cs) \<in> set ps" by (rule map_of_SomeD)
  have "c \<in> set (pvalNodes (PNodes cs))"
    using c by (auto simp: someNodes_def List.map_filter_def intro!: image_eqI[where x = "Some c"])
  from size_pvalNodes[OF this] size_prop[OF kv, of t l r] n show ?thesis by simp
qed

lemma size_someNodes: "c \<in> set (someNodes cs) \<Longrightarrow> Some c \<in> set cs"
  by (auto simp: someNodes_def List.map_filter_def)

text \<open>For writing trees down: the \<open>loc\<close> from line and column of start and end.\<close>

definition mkLoc :: "nat \<Rightarrow> nat \<Rightarrow> nat \<Rightarrow> nat \<Rightarrow> location option" where
  "mkLoc l1 c1 l2 c2 = Some \<lparr>startLine = l1, startCol = c1, endLine = l2, endCol = c2\<rparr>"

section \<open>The bubble locator (BubbleParser)\<close>

datatype bubbleParameterType =
  STRING | NUMBER | BOOLEAN | OBJECT | ARRAY | ENV | VARIABLE | EXPRESSION | UNKNOWN

record bubbleParameter =
  param_name :: string
  param_value :: string
  param_type :: bubbleParameterType
  param_variableId :: "nat option"
  param_location :: "location option"
  param_source :: string

text \<open>
  The class-name index of the registry (\<open>buildClassNameLookup\<close>): a table from the class
  identifier of the source to the registry's entry.
\<close>

record classInfo =
  ci_bubbleName :: string
  ci_className :: string
  ci_nodeType :: string

type_synonym classNameLookup = "string \<rightharpoonup> classInfo"

record parsedBubble =
  variableId :: int
  variableName :: string
  bubbleName :: string
  className :: string
  parameters :: "bubbleParameter list"
  hasAwait :: bool
  hasActionCall :: bool
  nodeType :: string
  bubbleLocation :: location
  description :: "string option"
  dependencies :: "string list option"
  dependencyGraph :: "dependencyGraphNode option"

text \<open>
  The located bubbles, \<open>Record<number, ParsedBubbleWithInfo>\<close>, in the order in which their
  keys were first written: \<open>nodes[k] = b\<close> replaces the value of a key that is there and
  appends a new key, and \<open>Object.keys(nodes).length\<close> is the length.
\<close>

type_synonym bubbles = "(int \<times> parsedBubble) list"

definition setBubble :: "bubbles \<Rightarrow> int \<Rightarrow> parsedBubble \<Rightarrow> bubbles" where
  "setBubble nodes k b =
     (if k \<in> fst ` set nodes then map (\<lambda>(k', b'). if k' = k then (k', b) else (k', b')) nodes
      else nodes @ [(k, b)])"

subsection \<open>Parameters\<close>

definition isProcessEnv :: "string \<Rightarrow> bool" where
  "isProcessEnv text \<longleftrightarrow> startsWith text ''process.env.''"

definition simpleTypes :: "string list" where
  "simpleTypes = [''Literal'', ''Identifier'', ''MemberExpression'', ''TemplateLiteral'',
                  ''ArrayExpression'', ''ObjectExpression'']"

definition extractParameterValue :: "string \<Rightarrow> node \<Rightarrow> string \<times> bubbleParameterType" where
  "extractParameterValue script expression =
     (let valueText = srcText script expression in
      if ntype expression = ''TSNonNullExpression'' \<and>
         (case child expression ''expression'' of
            None \<Rightarrow> False
          | Some inner \<Rightarrow>
              ntype inner = ''MemberExpression'' \<and> isProcessEnv (srcText script inner))
      then (valueText, ENV)
      else if ntype expression = ''MemberExpression'' \<or> ntype expression = ''ChainExpression''
      then (if isProcessEnv valueText then (valueText, ENV) else (valueText, VARIABLE))
      else if ntype expression = ''Identifier'' then (valueText, VARIABLE)
      else
        (case (if ntype expression = ''Literal'' then getProp expression ''value'' else None) of
           Some (PStr s) \<Rightarrow> (s, STRING)
         | Some (PNum x) \<Rightarrow> (valueText, NUMBER)
         | Some (PBool b) \<Rightarrow> (valueText, BOOLEAN)
         | _ \<Rightarrow>
             if ntype expression = ''TemplateLiteral'' then (valueText, STRING)
             else if ntype expression = ''ArrayExpression'' then (valueText, ARRAY)
             else if ntype expression = ''ObjectExpression'' then (valueText, OBJECT)
             else if \<not> List.member simpleTypes (ntype expression)
             then (valueText, EXPRESSION)
             else (valueText, UNKNOWN)))"

definition makeParameter :: "string \<Rightarrow> string \<Rightarrow> node \<Rightarrow> string \<Rightarrow> bubbleParameter" where
  "makeParameter script name valueExpr source =
     \<lparr>param_name = name,
      param_value = fst (extractParameterValue script valueExpr),
      param_type = snd (extractParameterValue script valueExpr),
      param_variableId = None,
      param_location = nloc valueExpr,
      param_source = source\<rparr>"

text \<open>The parameters one property of the object argument gives: one or none.\<close>

definition propertyParameters :: "string \<Rightarrow> node \<Rightarrow> bubbleParameter list" where
  "propertyParameters script p =
     (if ntype p = ''Property'' then
        (case (child p ''key'', child p ''value'') of
           (Some key, Some v) \<Rightarrow>
             if ntype key = ''Identifier'' \<and> ntype v \<noteq> ''AssignmentPattern''
             then [makeParameter script (nodeName key) v ''object-property'']
             else []
         | _ \<Rightarrow> [])
      else if ntype p = ''SpreadElement'' then
        (case child p ''argument'' of
           Some spreadArg \<Rightarrow>
             [makeParameter script
                (if ntype spreadArg = ''Identifier'' then nodeName spreadArg else ''spread'')
                spreadArg ''spread'']
         | None \<Rightarrow> [])
      else [])"

definition argumentParameters :: "string \<Rightarrow> node \<Rightarrow> bubbleParameter list" where
  "argumentParameters script newExpr =
     (case childList newExpr ''arguments'' of
        Some firstArg # _ \<Rightarrow>
          if ntype firstArg = ''ObjectExpression''
          then concat (map (propertyParameters script) (someNodes (childList firstArg ''properties'')))
          else [makeParameter script
                  (if ntype firstArg = ''Identifier'' then nodeName firstArg else ''arg0'')
                  firstArg ''first-arg'']
      | _ \<Rightarrow> [])"

definition extractFromNewExpression ::
  "string \<Rightarrow> classNameLookup \<Rightarrow> node \<Rightarrow> parsedBubble option" where
  "extractFromNewExpression script lookup newExpr =
     (case child newExpr ''callee'' of
        None \<Rightarrow> None
      | Some callee \<Rightarrow>
          if ntype callee \<noteq> ''Identifier'' then None
          else
            (case lookup (nodeName callee) of
               None \<Rightarrow> None
             | Some info \<Rightarrow>
                 Some \<lparr>variableId = - 1, variableName = [],
                       bubbleName = ci_bubbleName info, className = ci_className info,
                       parameters = argumentParameters script newExpr,
                       hasAwait = False, hasActionCall = False,
                       nodeType = ci_nodeType info,
                       bubbleLocation = locationOrZero newExpr,
                       description = None, dependencies = None, dependencyGraph = None\<rparr>))"

function extractBubbleFromExpression ::
  "string \<Rightarrow> classNameLookup \<Rightarrow> node \<Rightarrow> parsedBubble option" where
  "extractBubbleFromExpression script lookup expr =
     (if ntype expr = ''AwaitExpression'' then
        (case child expr ''argument'' of
           None \<Rightarrow> None
         | Some arg \<Rightarrow>
             map_option (\<lambda>inner. inner\<lparr>hasAwait := True\<rparr>)
               (extractBubbleFromExpression script lookup arg))
      else if ntype expr = ''NewExpression'' then extractFromNewExpression script lookup expr
      else if ntype expr = ''CallExpression'' \<and> childType expr ''callee'' = Some ''MemberExpression''
      then
        (case child expr ''callee'' of
           None \<Rightarrow> None
         | Some callee \<Rightarrow>
             (case (child callee ''property'', child callee ''object'') of
                (Some p, Some ob) \<Rightarrow>
                  if ntype p = ''Identifier'' \<and> nodeName p = ''action'' \<and>
                     ntype ob = ''NewExpression''
                  then map_option (\<lambda>b. b\<lparr>hasActionCall := True\<rparr>)
                         (extractFromNewExpression script lookup ob)
                  else None
              | _ \<Rightarrow> None))
      else None)"
  by pat_completeness auto
termination
  by (relation "measure (\<lambda>(script, lookup, expr). size expr)") (auto simp: size_child)

declare extractBubbleFromExpression.simps [simp del]

subsection \<open>Resolving names in the scope manager\<close>

text \<open>\<open>variable.defs[0]?.node?.loc?.start?.line\<close>.\<close>

definition firstDefLine :: "variable \<Rightarrow> nat option" where
  "firstDefLine v = (case var_defs v of [] \<Rightarrow> None | d # _ \<Rightarrow> map_option startLine d)"

definition nearLine :: "nat \<Rightarrow> variable \<Rightarrow> bool" where
  "nearLine line v =
     (case firstDefLine v of
        None \<Rightarrow> False
      | Some declLine \<Rightarrow> declLine \<noteq> 0 \<and> \<bar>int declLine - int line\<bar> \<le> 2)"

definition findVariableForBubble :: "string \<Rightarrow> node \<Rightarrow> scopeManager \<Rightarrow> variable option" where
  "findVariableForBubble name declarationNode scopes =
     (case startLineOf declarationNode of
        None \<Rightarrow> None
      | Some line \<Rightarrow>
          if line = 0 then None
          else
            List.find (\<lambda>v. var_name v = name \<and> nearLine line v)
              (concat (map scope_variables (filter (containsLine line) scopes))))"

text \<open>
  The three patterns of \<open>extractBaseVariableName\<close>:
  \<^verbatim>\<open>/^([a-zA-Z_$][a-zA-Z0-9_$]*)\[/\<close>, \<^verbatim>\<open>/^([a-zA-Z_$][a-zA-Z0-9_$]*)\./\<close> and
  \<^verbatim>\<open>/^[a-zA-Z_$][a-zA-Z0-9_$]*$/\<close>.
\<close>

definition identStart :: "char \<Rightarrow> bool" where
  "identStart c \<longleftrightarrow> isAlpha c \<or> c = CHR ''_'' \<or> c = CHR ''$''"

definition identChar :: "char \<Rightarrow> bool" where
  "identChar c \<longleftrightarrow> identStart c \<or> isDigit c"

definition arrayAccess :: re where
  "arrayAccess = Seqs [Bol, Grp 1 (Seq (Cls identStart) (Star (Cls identChar))), Chr (CHR ''['')]"

definition propertyAccess :: re where
  "propertyAccess = Seqs [Bol, Grp 1 (Seq (Cls identStart) (Star (Cls identChar))), Chr (CHR ''.'')]"

definition simpleName :: re where
  "simpleName = Seqs [Bol, Cls identStart, Star (Cls identChar), Eol]"

definition extractBaseVariableName :: "string \<Rightarrow> string option" where
  "extractBaseVariableName expression =
     (let trimmed = trim expression in
      case re_exec arrayAccess trimmed of
        Some m \<Rightarrow> Some (r_group m 1)
      | None \<Rightarrow>
          (case re_exec propertyAccess trimmed of
             Some m \<Rightarrow> Some (r_group m 1)
           | None \<Rightarrow> if re_test simpleName trimmed then Some trimmed else None))"

text \<open>A scope with its enclosing scopes, innermost first.\<close>

fun scopeChain :: "scope \<Rightarrow> scope list" where
  "scopeChain (Scope t b vs None) = [Scope t b vs None]"
| "scopeChain (Scope t b vs (Some p)) = Scope t b vs (Some p) # scopeChain p"

text \<open>
  \<open>findVariableIdByName\<close> searches the scopes that contain the line, each followed by its
  enclosing scopes, and returns the first variable of that name whose first definition is
  at or before the line. (The code keeps the scopes in a \<open>Set\<close>; a scope met a second time
  has been searched already, so the first hit is the same.)
\<close>

definition declaredByLine :: "nat \<Rightarrow> variable \<Rightarrow> bool" where
  "declaredByLine contextLine v =
     (case firstDefLine v of
        None \<Rightarrow> False
      | Some declLine \<Rightarrow> declLine \<noteq> 0 \<and> declLine \<le> contextLine)"

definition findVariableIdByName :: "string \<Rightarrow> nat \<Rightarrow> scopeManager \<Rightarrow> nat option" where
  "findVariableIdByName name contextLine scopes =
     map_option var_id
       (List.find (\<lambda>v. var_name v = name \<and> declaredByLine contextLine v)
          (concat (map scope_variables
             (concat (map scopeChain (filter (containsLine contextLine) scopes))))))"

definition addVariableReference :: "nat \<Rightarrow> scopeManager \<Rightarrow> bubbleParameter \<Rightarrow> bubbleParameter" where
  "addVariableReference contextLine scopes param =
     (if param_type param = VARIABLE then
        (case extractBaseVariableName (param_value param) of
           None \<Rightarrow> param
         | Some baseVariableName \<Rightarrow>
             (case findVariableIdByName baseVariableName contextLine scopes of
                None \<Rightarrow> param
              | Some i \<Rightarrow> param\<lparr>param_variableId := Some i\<rparr>))
      else param)"

definition addVariableReferencesToParameters ::
  "bubbleParameter list \<Rightarrow> node \<Rightarrow> scopeManager \<Rightarrow> bubbleParameter list" where
  "addVariableReferencesToParameters params contextNode scopes =
     map (addVariableReference (lineOrZero contextNode) scopes) params"

subsection \<open>Visiting the tree\<close>

record parserCtx =
  px_script :: string
  px_lookup :: classNameLookup
  px_scopes :: scopeManager

definition withDescription :: "parserCtx \<Rightarrow> node \<Rightarrow> parsedBubble \<Rightarrow> parsedBubble" where
  "withDescription ctx node b =
     (case extractCommentForLine (px_script ctx) (startLineOf node) of
        None \<Rightarrow> b
      | Some d \<Rightarrow> b\<lparr>description := Some d\<rparr>)"

text \<open>The declarators of a variable declaration; a bubble whose variable is not found throws.\<close>

definition visitDeclarator :: "parserCtx \<Rightarrow> node \<Rightarrow> node \<Rightarrow> bubbles \<Rightarrow> error + bubbles" where
  "visitDeclarator ctx node declarator nodes =
     (case (if ntype declarator = ''VariableDeclarator'' then child declarator ''id'' else None,
            child declarator ''init'') of
        (Some ident, Some init) \<Rightarrow>
          if ntype ident \<noteq> ''Identifier'' then Inr nodes
          else
            (case extractBubbleFromExpression (px_script ctx) (px_lookup ctx) init of
               None \<Rightarrow> Inr nodes
             | Some bubbleNode \<Rightarrow>
                 (case findVariableForBubble (nodeName ident) node (px_scopes ctx) of
                    None \<Rightarrow> Inl (VariableNotInScopeManager (nodeName ident))
                  | Some v \<Rightarrow>
                      Inr (setBubble nodes (int (var_id v))
                            ((withDescription ctx node (bubbleNode\<lparr>variableName := nodeName ident\<rparr>))
                               \<lparr>variableId := int (var_id v),
                                parameters :=
                                  addVariableReferencesToParameters (parameters bubbleNode)
                                    node (px_scopes ctx)\<rparr>))))
      | _ \<Rightarrow> Inr nodes)"

fun foldE :: "('a \<Rightarrow> 's \<Rightarrow> error + 's) \<Rightarrow> 'a list \<Rightarrow> 's \<Rightarrow> error + 's" where
  "foldE f [] s = Inr s"
| "foldE f (x # xs) s = (case f x s of Inl e \<Rightarrow> Inl e | Inr s' \<Rightarrow> foldE f xs s')"

lemma foldE_cong [fundef_cong]:
  "xs = ys \<Longrightarrow> s = t \<Longrightarrow> (\<And>x s. x \<in> set ys \<Longrightarrow> f x s = g x s) \<Longrightarrow> foldE f xs s = foldE g ys t"
proof -
  assume "xs = ys" and "s = t" and h: "\<And>x s. x \<in> set ys \<Longrightarrow> f x s = g x s"
  have "foldE f ys t = foldE g ys t" using h
    by (induction ys arbitrary: t) (auto split: sum.splits)
  with \<open>xs = ys\<close> \<open>s = t\<close> show ?thesis by simp
qed

text \<open>
  An anonymous bubble: its name and its negative id come from the number of bubbles
  located so far.
\<close>

definition syntheticId :: "bubbles \<Rightarrow> int" where
  "syntheticId nodes = - 1 * (int (length nodes) + 1)"

definition syntheticName :: "bubbles \<Rightarrow> parsedBubble \<Rightarrow> string" where
  "syntheticName nodes b = ''_anonymous_'' @ className b @ ''_'' @ showNat (length nodes)"

definition registerAnonymous :: "parserCtx \<Rightarrow> node \<Rightarrow> bool \<Rightarrow> parsedBubble \<Rightarrow> bubbles \<Rightarrow> bubbles" where
  "registerAnonymous ctx node withComment bubbleNode nodes =
     (let named = bubbleNode\<lparr>variableName := syntheticName nodes bubbleNode\<rparr>;
          described = (if withComment then withDescription ctx node named else named)
      in setBubble nodes (syntheticId nodes)
           (described\<lparr>variableId := syntheticId nodes,
                      parameters :=
                        addVariableReferencesToParameters (parameters bubbleNode) node
                          (px_scopes ctx)\<rparr>))"

text \<open>
  The three anonymous forms: an expression statement, an arrow function with a concise
  body and a return statement with an argument. The flag says whether the comment above
  the node is looked for (the arrow function does not).
\<close>

definition anonymousInstantiation :: "parserCtx \<Rightarrow> node \<Rightarrow> (bool \<times> parsedBubble) option" where
  "anonymousInstantiation ctx node =
     (if ntype node = ''ExpressionStatement'' then
        map_option (Pair True)
          (Option.bind (child node ''expression'')
             (extractBubbleFromExpression (px_script ctx) (px_lookup ctx)))
      else if ntype node = ''ArrowFunctionExpression'' then
        (case child node ''body'' of
           None \<Rightarrow> None
         | Some body \<Rightarrow>
             if ntype body = ''BlockStatement'' then None
             else map_option (Pair False)
                    (extractBubbleFromExpression (px_script ctx) (px_lookup ctx) body))
      else if ntype node = ''ReturnStatement'' then
        map_option (Pair True)
          (Option.bind (child node ''argument'')
             (extractBubbleFromExpression (px_script ctx) (px_lookup ctx)))
      else None)"

text \<open>What \<open>visitNode\<close> does at a node before it goes on to the node's properties.\<close>

definition visitOwn :: "parserCtx \<Rightarrow> node \<Rightarrow> bubbles \<Rightarrow> error + bubbles" where
  "visitOwn ctx node nodes =
     (if ntype node = ''VariableDeclaration'' then
        foldE (visitDeclarator ctx node) (someNodes (childList node ''declarations'')) nodes
      else
        (case anonymousInstantiation ctx node of
           None \<Rightarrow> Inr nodes
         | Some (withComment, bubbleNode) \<Rightarrow>
             Inr (registerAnonymous ctx node withComment bubbleNode nodes)))"

function visitNode :: "parserCtx \<Rightarrow> node \<Rightarrow> bubbles \<Rightarrow> error + bubbles" where
  "visitNode ctx node nodes =
     (case visitOwn ctx node nodes of
        Inl e \<Rightarrow> Inl e
      | Inr nodes' \<Rightarrow> foldE (visitNode ctx) (children node) nodes')"
  by pat_completeness auto
termination
  by (relation "measure (\<lambda>(ctx, node, nodes). size node)") (auto simp: size_children)

declare visitNode.simps [simp del]

text \<open>
  The shape \<open>await new X(...).action()\<close>: the \<open>new\<close> expression of an awaited call of the
  member \<open>action\<close> of a \<open>new\<close> expression.
\<close>

definition actionCallee :: "node \<Rightarrow> node option" where
  "actionCallee call =
     (if ntype call = ''CallExpression'' \<and> childType call ''callee'' = Some ''MemberExpression''
      then
        (case Option.bind (child call ''callee'') (\<lambda>callee.
                case (child callee ''property'', child callee ''object'') of
                  (Some p, Some ob) \<Rightarrow>
                    if ntype p = ''Identifier'' \<and> nodeName p = ''action'' \<and>
                       ntype ob = ''NewExpression''
                    then Some ob else None
                | _ \<Rightarrow> None) of
           None \<Rightarrow> None
         | Some ob \<Rightarrow> Some ob)
      else None)"

definition awaitedAction :: "node \<Rightarrow> node option" where
  "awaitedAction e =
     (if ntype e = ''AwaitExpression'' then Option.bind (child e ''argument'') actionCallee
      else None)"

text \<open>
  For stating how the ids are numbered: an entry of a named bubble has the id of its
  variable, which is not negative; an anonymous bubble that is the \<open>i\<close>-th entry (from 0)
  has the id \<open>-(i + 1)\<close> and the name \<open>_anonymous_<class>_<i>\<close>.
\<close>

definition namedEntry :: "int \<times> parsedBubble \<Rightarrow> bool" where
  "namedEntry e \<longleftrightarrow> 0 \<le> fst e \<and> variableId (snd e) = fst e"

definition anonymousAt :: "nat \<Rightarrow> int \<times> parsedBubble \<Rightarrow> bool" where
  "anonymousAt i e \<longleftrightarrow>
     fst e = - (int i + 1) \<and> variableId (snd e) = fst e \<and>
     variableName (snd e) = ''_anonymous_'' @ className (snd e) @ ''_'' @ showNat i"

definition numbered :: "bubbles \<Rightarrow> bool" where
  "numbered nodes \<longleftrightarrow> (\<forall>i < length nodes. namedEntry (nodes ! i) \<or> anonymousAt i (nodes ! i))"



subsection \<open>Two scripts with an anonymous bubble\<close>

text \<open>
  The registry knows one class, \<open>X\<close>. The trees are written with the properties the code
  reads. The first script is
  \<^verbatim>\<open>await new X({ q: 'a' }).action();\<close>
  and the second one is
  \<^verbatim>\<open>const a = new X({});
await new X({}).action();\<close>
  whose variable \<open>a\<close> is the scope manager's variable 1.
\<close>

definition c3_lookup :: classNameLookup where
  "c3_lookup = [''X'' \<mapsto> \<lparr>ci_bubbleName = ''x-bubble'', ci_className = ''X'', ci_nodeType = ''service''\<rparr>]"

definition c3_script :: string where
  "c3_script =
     ''await new X({ q: '' @ [CHR 0x27] @ ''a'' @ [CHR 0x27] @ '' }).action();'' @ [NL]"

definition c3_new :: node where
  "c3_new =
     (Node ''NewExpression'' (mkLoc 1 6 1 23) (6, 23)
       [(''callee'', PNode
         (Node ''Identifier'' (mkLoc 1 10 1 11) (10, 11)
           [(''name'', PStr ''X'')])),
        (''arguments'', PNodes
           [Some
               (Node ''ObjectExpression'' (mkLoc 1 12 1 22) (12, 22)
                 [(''properties'', PNodes
                     [Some
                         (Node ''Property'' (mkLoc 1 14 1 20) (14, 20)
                           [(''key'', PNode
                             (Node ''Identifier'' (mkLoc 1 14 1 15) (14, 15)
                               [(''name'', PStr ''q'')])),
                            (''value'', PNode
                             (Node ''Literal'' (mkLoc 1 17 1 20) (17, 20)
                               [(''value'', PStr ''a'')]))])])])])])"

definition c3_await :: node where
  "c3_await =
     (Node ''AwaitExpression'' (mkLoc 1 0 1 32) (0, 32)
       [(''argument'', PNode
         (Node ''CallExpression'' (mkLoc 1 6 1 32) (6, 32)
           [(''callee'', PNode
             (Node ''MemberExpression'' (mkLoc 1 6 1 30) (6, 30)
               [(''object'', PNode
                 c3_new),
                (''property'', PNode
                 (Node ''Identifier'' (mkLoc 1 24 1 30) (24, 30)
                   [(''name'', PStr ''action'')]))])),
            (''arguments'', PNodes [])]))])"

definition c3_statement :: node where
  "c3_statement =
     (Node ''ExpressionStatement'' (mkLoc 1 0 1 33) (0, 33)
       [(''expression'', PNode
         c3_await)])"

definition c3_program :: node where
  "c3_program =
     (Node ''Program'' (mkLoc 1 0 2 0) (0, 34)
       [(''body'', PNodes
           [Some
               c3_statement])])"

definition c3_named_script :: string where
  "c3_named_script =
     ''const a = new X({});'' @ [NL] @
     ''await new X({}).action();'' @ [NL]"

definition c3_named_program :: node where
  "c3_named_program =
     (Node ''Program'' (mkLoc 1 0 3 0) (0, 47)
       [(''body'', PNodes
           [Some
               (Node ''VariableDeclaration'' (mkLoc 1 0 1 20) (0, 20)
                 [(''declarations'', PNodes
                     [Some
                         (Node ''VariableDeclarator'' (mkLoc 1 6 1 19) (6, 19)
                           [(''id'', PNode
                             (Node ''Identifier'' (mkLoc 1 6 1 7) (6, 7)
                               [(''name'', PStr ''a'')])),
                            (''init'', PNode
                             (Node ''NewExpression'' (mkLoc 1 10 1 19) (10, 19)
                               [(''callee'', PNode
                                 (Node ''Identifier'' (mkLoc 1 14 1 15) (14, 15)
                                   [(''name'', PStr ''X'')])),
                                (''arguments'', PNodes
                                   [Some
                                       (Node ''ObjectExpression'' (mkLoc 1 16 1 18) (16, 18)
                                         [(''properties'', PNodes [])])])]))])]),
                  (''kind'', PStr ''const'')]),
            Some
               (Node ''ExpressionStatement'' (mkLoc 2 0 2 25) (21, 46)
                 [(''expression'', PNode
                   (Node ''AwaitExpression'' (mkLoc 2 0 2 24) (21, 45)
                     [(''argument'', PNode
                       (Node ''CallExpression'' (mkLoc 2 6 2 24) (27, 45)
                         [(''callee'', PNode
                           (Node ''MemberExpression'' (mkLoc 2 6 2 22) (27, 43)
                             [(''object'', PNode
                               (Node ''NewExpression'' (mkLoc 2 6 2 15) (27, 36)
                                 [(''callee'', PNode
                                   (Node ''Identifier'' (mkLoc 2 10 2 11) (31, 32)
                                     [(''name'', PStr ''X'')])),
                                  (''arguments'', PNodes
                                     [Some
                                         (Node ''ObjectExpression'' (mkLoc 2 12 2 14) (33, 35)
                                           [(''properties'', PNodes [])])])])),
                              (''property'', PNode
                               (Node ''Identifier'' (mkLoc 2 16 2 22) (37, 43)
                                 [(''name'', PStr ''action'')]))])),
                          (''arguments'', PNodes [])]))]))])])])"

definition c3_ctx :: parserCtx where
  "c3_ctx = \<lparr>px_script = c3_script, px_lookup = c3_lookup,
     px_scopes = [Scope ''module'' (mkLoc 1 0 2 0) [] None]\<rparr>"

definition c3_a :: variable where
  "c3_a = \<lparr>var_id = 1, var_name = ''a'', var_defs = [mkLoc 1 6 1 19], var_scope_type = ''module''\<rparr>"

definition c3_named_ctx :: parserCtx where
  "c3_named_ctx = \<lparr>px_script = c3_named_script, px_lookup = c3_lookup,
     px_scopes = [Scope ''module'' (mkLoc 1 0 3 0) [c3_a] None]\<rparr>"

text \<open>The bubble of the first script.\<close>

definition c3_bubble :: parsedBubble where
  "c3_bubble =
     \<lparr>variableId = - 1, variableName = ''_anonymous_X_0'', bubbleName = ''x-bubble'',
      className = ''X'',
      parameters =
        [\<lparr>param_name = ''q'', param_value = ''a'', param_type = STRING,
          param_variableId = None, param_location = mkLoc 1 17 1 20,
          param_source = ''object-property''\<rparr>],
      hasAwait = True, hasActionCall = True, nodeType = ''service'',
      bubbleLocation = \<lparr>startLine = 1, startCol = 6, endLine = 1, endCol = 23\<rparr>,
      description = None, dependencies = None, dependencyGraph = None\<rparr>"

subsection \<open>A bubble with one parameter of every kind\<close>



























section \<open>The workflow tree (BubbleParser.buildWorkflowTree)\<close>

text \<open>
  A workflow node: a bubble leaf with the id of its bubble, a control-flow node (\<open>if\<close>, \<open>for\<close>,
  \<open>while\<close>) with its condition, children and, for an \<open>if\<close> with an \<open>else\<close>, the else branch, a
  \<open>try_catch\<close> node with children and catch block, or a code block.
\<close>

datatype workflowNode =
    BubbleNode int
  | ControlFlowNode string location string "workflowNode list" "workflowNode list option"
  | TryCatchNode location "workflowNode list" "workflowNode list option"
  | CodeBlockNode location string "workflowNode list"

text \<open>
  \<open>bubbleMap.values()\<close>: the map is filled from \<open>Object.entries(bubbles)\<close>, which lists the
  keys that are array indices in ascending order and then the other keys (the negative ids)
  in the order in which they were written.
\<close>

definition bubbleValues :: "bubbles \<Rightarrow> parsedBubble list" where
  "bubbleValues nodes =
     map snd (sort_key fst (filter (\<lambda>e. 0 \<le> fst e) nodes) @ filter (\<lambda>e. fst e < 0) nodes)"

text \<open>\<open>extractNewExpression\<close>: through \<open>await\<close> and through the object of a called member.\<close>

lemma size_child2:
  "child n k = Some c \<Longrightarrow> child c k' = Some d \<Longrightarrow> size d < size n"
  using size_child [of n k c] size_child [of c k' d] by simp

function extractNewExpression :: "node \<Rightarrow> node option" where
  "extractNewExpression expr =
     (if ntype expr = ''AwaitExpression'' \<and> child expr ''argument'' \<noteq> None then
        (case child expr ''argument'' of
           Some arg \<Rightarrow> extractNewExpression arg
         | None \<Rightarrow> None)
      else
        (case (if ntype expr = ''CallExpression'' \<and>
                  childType expr ''callee'' = Some ''MemberExpression''
               then Option.bind (child expr ''callee'') (\<lambda>callee. child callee ''object'')
               else None) of
           Some ob \<Rightarrow> extractNewExpression ob
         | None \<Rightarrow> if ntype expr = ''NewExpression'' then Some expr else None))"
  by pat_completeness auto
termination
proof (relation "measure size")
  show "wf (measure size)" by simp
next
  fix expr arg
  assume "child expr ''argument'' = Some arg"
  then show "(arg, expr) \<in> measure size" by (simp add: size_child)
next
  fix expr ob
  assume "(if ntype expr = ''CallExpression'' \<and>
              childType expr ''callee'' = Some ''MemberExpression''
           then Option.bind (child expr ''callee'') (\<lambda>callee. child callee ''object'')
           else None) = Some ob"
  then obtain callee where "child expr ''callee'' = Some callee" "child callee ''object'' = Some ob"
    by (auto split: if_splits Option.bind_splits)
  then show "(ob, expr) \<in> measure size" using size_child2 by simp
qed

declare extractNewExpression.simps [simp del]

text \<open>
  \<open>findBubbleInExpression\<close>: the first bubble that was located on the lines of the \<open>new\<close>
  expression, at most five columns from its start.
\<close>

definition sameSpot :: "location \<Rightarrow> parsedBubble \<Rightarrow> bool" where
  "sameSpot l b \<longleftrightarrow>
     startLine (bubbleLocation b) = startLine l \<and> endLine (bubbleLocation b) = endLine l \<and>
     \<bar>int (startCol (bubbleLocation b)) - int (startCol l)\<bar> \<le> 5"

definition findBubbleInExpression :: "node \<Rightarrow> parsedBubble list \<Rightarrow> parsedBubble option" where
  "findBubbleInExpression expr bubbleMap =
     (if nloc expr = None then None
      else
        (case extractNewExpression expr of
           None \<Rightarrow> None
         | Some newExpr \<Rightarrow>
             (case nloc newExpr of
                None \<Rightarrow> None
              | Some l \<Rightarrow> List.find (sameSpot l) bubbleMap)))"

text \<open>The statements of a block, \<open>block.body\<close>, and the source text of an optional node.\<close>

definition blockBody :: "node \<Rightarrow> node list" where
  "blockBody b = someNodes (childList b ''body'')"

lemma size_blockBody: "c \<in> set (blockBody b) \<Longrightarrow> size c < size b"
  unfolding blockBody_def using size_childList size_someNodes by blast

definition optText :: "string \<Rightarrow> node option \<Rightarrow> string" where
  "optText script n = (case n of None \<Rightarrow> [] | Some e \<Rightarrow> srcText script e)"

text \<open>
  The builders of the node kinds. Each of them builds the nodes of nested statements with
  \<open>buildWorkflowNodeFromStatement\<close>, which is their argument \<open>build\<close> here. \<open>extractLocation\<close>
  always returns a location, so the \<open>null\<close> of \<open>buildCodeBlockNode\<close> is never returned and
  every statement gives a node.
\<close>

definition extractLocation :: "node \<Rightarrow> location" where
  "extractLocation n = locationOrZero n"

text \<open>The body of a branch or loop: the statements of a block, or the single statement.\<close>

definition bodyNodes :: "(node \<Rightarrow> workflowNode) \<Rightarrow> node option \<Rightarrow> workflowNode list" where
  "bodyNodes build body =
     (case body of
        None \<Rightarrow> []
      | Some b \<Rightarrow> if ntype b = ''BlockStatement'' then map build (blockBody b) else [build b])"

text \<open>The \<open>try\<close> block and the body of the handler: the statements of a block only.\<close>

definition blockNodes :: "(node \<Rightarrow> workflowNode) \<Rightarrow> node option \<Rightarrow> workflowNode list" where
  "blockNodes build body =
     (case body of
        None \<Rightarrow> []
      | Some b \<Rightarrow> if ntype b = ''BlockStatement'' then map build (blockBody b) else [])"

definition buildIfNode :: "string \<Rightarrow> (node \<Rightarrow> workflowNode) \<Rightarrow> node \<Rightarrow> workflowNode" where
  "buildIfNode script build stmt =
     ControlFlowNode ''if'' (extractLocation stmt) (optText script (child stmt ''test''))
       (bodyNodes build (child stmt ''consequent''))
       (case child stmt ''alternate'' of
          None \<Rightarrow> None
        | Some alt \<Rightarrow> Some (bodyNodes build (Some alt)))"

definition forCondition :: "string \<Rightarrow> node \<Rightarrow> string" where
  "forCondition script stmt =
     (if ntype stmt = ''ForStatement'' then
        trim (optText script (child stmt ''init'') @ ''; '' @
              optText script (child stmt ''test'') @ ''; '' @
              optText script (child stmt ''update''))
      else if ntype stmt = ''ForInStatement'' then
        optText script (child stmt ''left'') @ '' in '' @ optText script (child stmt ''right'')
      else
        optText script (child stmt ''left'') @ '' of '' @ optText script (child stmt ''right''))"

definition buildForNode :: "string \<Rightarrow> (node \<Rightarrow> workflowNode) \<Rightarrow> node \<Rightarrow> workflowNode" where
  "buildForNode script build stmt =
     ControlFlowNode ''for'' (extractLocation stmt) (forCondition script stmt)
       (bodyNodes build (child stmt ''body'')) None"

definition buildWhileNode :: "string \<Rightarrow> (node \<Rightarrow> workflowNode) \<Rightarrow> node \<Rightarrow> workflowNode" where
  "buildWhileNode script build stmt =
     ControlFlowNode ''while'' (extractLocation stmt) (optText script (child stmt ''test''))
       (bodyNodes build (child stmt ''body'')) None"

definition buildTryCatchNode :: "(node \<Rightarrow> workflowNode) \<Rightarrow> node \<Rightarrow> workflowNode" where
  "buildTryCatchNode build stmt =
     TryCatchNode (extractLocation stmt)
       (blockNodes build (child stmt ''block''))
       (case child stmt ''handler'' of
          None \<Rightarrow> None
        | Some handler \<Rightarrow> Some (blockNodes build (child handler ''body'')))"

definition buildCodeBlockNode :: "string \<Rightarrow> (node \<Rightarrow> workflowNode) \<Rightarrow> node \<Rightarrow> workflowNode" where
  "buildCodeBlockNode script build stmt =
     CodeBlockNode (extractLocation stmt) (srcText script stmt)
       (if ntype stmt = ''BlockStatement'' then map build (blockBody stmt) else [])"

text \<open>
  The bubble of a variable declaration: for each declarator with an initializer and an
  identifier, the first bubble of that variable name, or else the bubble found in the
  initializer; the first declarator that has one decides.
\<close>

fun declaredBubble :: "parsedBubble list \<Rightarrow> node list \<Rightarrow> parsedBubble option" where
  "declaredBubble bubbleMap [] = None"
| "declaredBubble bubbleMap (decl # decls) =
     (case (child decl ''init'', child decl ''id'') of
        (Some init, Some ident) \<Rightarrow>
          if ntype ident = ''Identifier'' then
            (case List.find (\<lambda>b. variableName b = nodeName ident) bubbleMap of
               Some bubble \<Rightarrow> Some bubble
             | None \<Rightarrow>
                 (case findBubbleInExpression init bubbleMap of
                    Some bubbleFromExpr \<Rightarrow> Some bubbleFromExpr
                  | None \<Rightarrow> declaredBubble bubbleMap decls))
          else declaredBubble bubbleMap decls
      | _ \<Rightarrow> declaredBubble bubbleMap decls)"

text \<open>The bubble of a statement that is a leaf of the tree, if it is one.\<close>

definition statementBubble :: "parsedBubble list \<Rightarrow> node \<Rightarrow> parsedBubble option" where
  "statementBubble bubbleMap stmt =
     (if ntype stmt = ''VariableDeclaration''
      then declaredBubble bubbleMap (someNodes (childList stmt ''declarations''))
      else if ntype stmt = ''ExpressionStatement''
      then Option.bind (child stmt ''expression'') (\<lambda>e. findBubbleInExpression e bubbleMap)
      else if ntype stmt = ''ReturnStatement''
      then Option.bind (child stmt ''argument'') (\<lambda>e. findBubbleInExpression e bubbleMap)
      else None)"

text \<open>The builders call \<open>build\<close> on smaller nodes only.\<close>

lemma bodyNodes_cong:
  assumes "\<And>c. size c < size stmt \<Longrightarrow> f c = g c"
    and "\<And>b. body = Some b \<Longrightarrow> size b < size stmt"
  shows "bodyNodes f body = bodyNodes g body"
proof (cases body)
  case None
  then show ?thesis by (simp add: bodyNodes_def)
next
  case (Some b)
  with assms(2) have b: "size b < size stmt" by simp
  then have "\<And>c. c \<in> set (blockBody b) \<Longrightarrow> size c < size stmt"
    using size_blockBody by fastforce
  with b Some assms(1) show ?thesis by (simp add: bodyNodes_def cong: map_cong)
qed

lemma blockNodes_cong:
  assumes "\<And>c. size c < size stmt \<Longrightarrow> f c = g c"
    and "\<And>b. body = Some b \<Longrightarrow> size b < size stmt"
  shows "blockNodes f body = blockNodes g body"
proof (cases body)
  case None
  then show ?thesis by (simp add: blockNodes_def)
next
  case (Some b)
  with assms(2) have b: "size b < size stmt" by simp
  then have "\<And>c. c \<in> set (blockBody b) \<Longrightarrow> size c < size stmt"
    using size_blockBody by fastforce
  with Some assms(1) show ?thesis by (simp add: blockNodes_def cong: map_cong)
qed

lemma buildIfNode_cong [fundef_cong]:
  assumes "stmt = stmt'" and "\<And>c. size c < size stmt' \<Longrightarrow> f c = g c"
  shows "buildIfNode script f stmt = buildIfNode script g stmt'"
proof -
  have "bodyNodes f (child stmt' ''consequent'') = bodyNodes g (child stmt' ''consequent'')"
    by (rule bodyNodes_cong [where stmt = stmt']) (erule assms(2), erule size_child)
  moreover have "bodyNodes f (child stmt' ''alternate'') = bodyNodes g (child stmt' ''alternate'')"
    by (rule bodyNodes_cong [where stmt = stmt']) (erule assms(2), erule size_child)
  ultimately show ?thesis using assms(1)
    by (auto simp: buildIfNode_def split: option.splits)
qed

lemma buildForNode_cong [fundef_cong]:
  assumes "stmt = stmt'" and "\<And>c. size c < size stmt' \<Longrightarrow> f c = g c"
  shows "buildForNode script f stmt = buildForNode script g stmt'"
proof -
  have "bodyNodes f (child stmt' ''body'') = bodyNodes g (child stmt' ''body'')"
    by (rule bodyNodes_cong [where stmt = stmt']) (erule assms(2), erule size_child)
  then show ?thesis using assms(1) by (simp add: buildForNode_def)
qed

lemma buildWhileNode_cong [fundef_cong]:
  assumes "stmt = stmt'" and "\<And>c. size c < size stmt' \<Longrightarrow> f c = g c"
  shows "buildWhileNode script f stmt = buildWhileNode script g stmt'"
proof -
  have "bodyNodes f (child stmt' ''body'') = bodyNodes g (child stmt' ''body'')"
    by (rule bodyNodes_cong [where stmt = stmt']) (erule assms(2), erule size_child)
  then show ?thesis using assms(1) by (simp add: buildWhileNode_def)
qed

lemma buildTryCatchNode_cong [fundef_cong]:
  assumes "stmt = stmt'" and "\<And>c. size c < size stmt' \<Longrightarrow> f c = g c"
  shows "buildTryCatchNode f stmt = buildTryCatchNode g stmt'"
proof -
  have "blockNodes f (child stmt' ''block'') = blockNodes g (child stmt' ''block'')"
    by (rule blockNodes_cong [where stmt = stmt']) (erule assms(2), erule size_child)
  moreover have "\<And>h. child stmt' ''handler'' = Some h \<Longrightarrow>
      blockNodes f (child h ''body'') = blockNodes g (child h ''body'')"
  proof -
    fix h assume h: "child stmt' ''handler'' = Some h"
    show "blockNodes f (child h ''body'') = blockNodes g (child h ''body'')"
      by (rule blockNodes_cong [where stmt = stmt']) (erule assms(2), erule size_child2 [OF h])
  qed
  ultimately show ?thesis using assms(1)
    by (auto simp: buildTryCatchNode_def split: option.splits)
qed

lemma buildCodeBlockNode_cong [fundef_cong]:
  assumes "stmt = stmt'" and "\<And>c. size c < size stmt' \<Longrightarrow> f c = g c"
  shows "buildCodeBlockNode script f stmt = buildCodeBlockNode script g stmt'"
  using assms size_blockBody by (auto simp: buildCodeBlockNode_def cong: map_cong)

function buildWorkflowNodeFromStatement ::
  "string \<Rightarrow> parsedBubble list \<Rightarrow> node \<Rightarrow> workflowNode" where
  "buildWorkflowNodeFromStatement script bubbleMap stmt =
     (if ntype stmt = ''IfStatement''
      then buildIfNode script (buildWorkflowNodeFromStatement script bubbleMap) stmt
      else if ntype stmt = ''ForStatement'' \<or> ntype stmt = ''ForInStatement'' \<or>
              ntype stmt = ''ForOfStatement''
      then buildForNode script (buildWorkflowNodeFromStatement script bubbleMap) stmt
      else if ntype stmt = ''WhileStatement''
      then buildWhileNode script (buildWorkflowNodeFromStatement script bubbleMap) stmt
      else if ntype stmt = ''TryStatement''
      then buildTryCatchNode (buildWorkflowNodeFromStatement script bubbleMap) stmt
      else
        (case statementBubble bubbleMap stmt of
           Some bubble \<Rightarrow> BubbleNode (variableId bubble)
         | None \<Rightarrow>
             buildCodeBlockNode script (buildWorkflowNodeFromStatement script bubbleMap) stmt))"
  by pat_completeness auto
termination
  by (relation "measure (\<lambda>(script, bubbleMap, stmt). size stmt)") auto

declare buildWorkflowNodeFromStatement.simps [simp del]

text \<open>\<open>findHandleInClass\<close> and \<open>findHandleFunctionNode\<close>.\<close>

definition isHandleMethod :: "node \<Rightarrow> bool" where
  "isHandleMethod member \<longleftrightarrow>
     ntype member = ''MethodDefinition'' \<and>
     (case child member ''key'' of
        None \<Rightarrow> False
      | Some key \<Rightarrow> ntype key = ''Identifier'' \<and> nodeName key = ''handle'') \<and>
     childType member ''value'' = Some ''FunctionExpression''"

definition findHandleInClass :: "node \<Rightarrow> node option" where
  "findHandleInClass cls =
     (case child cls ''body'' of
        None \<Rightarrow> None
      | Some body \<Rightarrow>
          Option.bind (List.find isHandleMethod (blockBody body)) (\<lambda>member. child member ''value''))"

definition isHandleDeclarator :: "node \<Rightarrow> bool" where
  "isHandleDeclarator d \<longleftrightarrow>
     (case child d ''id'' of
        None \<Rightarrow> False
      | Some ident \<Rightarrow> ntype ident = ''Identifier'' \<and> nodeName ident = ''handle'') \<and>
     (childType d ''init'' = Some ''ArrowFunctionExpression'' \<or>
      childType d ''init'' = Some ''FunctionExpression'')"

definition handleDeclared :: "node \<Rightarrow> node option" where
  "handleDeclared decl =
     Option.bind (List.find isHandleDeclarator (someNodes (childList decl ''declarations'')))
       (\<lambda>d. child d ''init'')"

definition isHandleFunction :: "node \<Rightarrow> bool" where
  "isHandleFunction fn \<longleftrightarrow>
     ntype fn = ''FunctionDeclaration'' \<and>
     (case child fn ''id'' of None \<Rightarrow> False | Some ident \<Rightarrow> nodeName ident = ''handle'')"

text \<open>The handle function that one top-level statement gives, if it gives one.\<close>

definition handleOfStatement :: "node \<Rightarrow> node option" where
  "handleOfStatement stmt =
     (if isHandleFunction stmt then Some stmt
      else if ntype stmt = ''VariableDeclaration'' then handleDeclared stmt
      else if ntype stmt = ''ClassDeclaration'' then findHandleInClass stmt
      else if ntype stmt = ''ExportNamedDeclaration'' then
        (case child stmt ''declaration'' of
           None \<Rightarrow> None
         | Some declaration \<Rightarrow>
             if isHandleFunction declaration then Some declaration
             else if ntype declaration = ''VariableDeclaration'' then handleDeclared declaration
             else if ntype declaration = ''ClassDeclaration'' then findHandleInClass declaration
             else None)
      else None)"

fun firstSome :: "('a \<Rightarrow> 'b option) \<Rightarrow> 'a list \<Rightarrow> 'b option" where
  "firstSome f [] = None"
| "firstSome f (x # xs) = (case f x of Some y \<Rightarrow> Some y | None \<Rightarrow> firstSome f xs)"

definition findHandleFunctionNode :: "node \<Rightarrow> node option" where
  "findHandleFunctionNode ast = firstSome handleOfStatement (blockBody ast)"

text \<open>\<open>buildWorkflowTree\<close>: the root nodes, one for each statement of the body of \<open>handle\<close>.\<close>

definition buildWorkflowTree :: "string \<Rightarrow> node \<Rightarrow> bubbles \<Rightarrow> workflowNode list" where
  "buildWorkflowTree script ast nodes =
     (case Option.bind (findHandleFunctionNode ast) (\<lambda>handleNode. child handleNode ''body'') of
        None \<Rightarrow> []
      | Some body \<Rightarrow>
          if ntype body \<noteq> ''BlockStatement'' then []
          else map (buildWorkflowNodeFromStatement script (bubbleValues nodes)) (blockBody body))"

text \<open>
  \<open>collectBubbleIds\<close> of the parser's tests: the ids of the bubble leaves of the tree, through
  children, else branches and catch blocks.
\<close>

fun bubbleIds :: "workflowNode \<Rightarrow> int set" where
  "bubbleIds (BubbleNode i) = {i}"
| "bubbleIds (ControlFlowNode t l c cs e) =
     (\<Union>n \<in> set cs. bubbleIds n) \<union>
     (case e of None \<Rightarrow> {} | Some es \<Rightarrow> (\<Union>n \<in> set es. bubbleIds n))"
| "bubbleIds (TryCatchNode l cs e) =
     (\<Union>n \<in> set cs. bubbleIds n) \<union>
     (case e of None \<Rightarrow> {} | Some es \<Rightarrow> (\<Union>n \<in> set es. bubbleIds n))"
| "bubbleIds (CodeBlockNode l c cs) = (\<Union>n \<in> set cs. bubbleIds n)"

definition collectBubbleIds :: "workflowNode list \<Rightarrow> int set" where
  "collectBubbleIds nodes = (\<Union>n \<in> set nodes. bubbleIds n)"

subsection \<open>A flow whose bubble is in a method that \<open>handle\<close> calls\<close>

text \<open>
  The flow
  \<^verbatim>\<open>export class F extends BubbleFlow<'webhook/http'> {
  async handle(payload) {
    await this.step();
  }
  async step() {
    const b = new X({});
  }
}\<close>
  with its tree and its scopes; the variable \<open>b\<close> of \<open>step\<close> is the scope manager's variable 6.
\<close>

definition c1_script :: string where
  "c1_script =
     ''export class F extends BubbleFlow<'' @ [CHR 0x27] @ ''webhook/http'' @ [CHR 0x27] @ ''> {'' @ [NL] @
     ''  async handle(payload) {'' @ [NL] @
     ''    await this.step();'' @ [NL] @
     ''  }'' @ [NL] @
     ''  async step() {'' @ [NL] @
     ''    const b = new X({});'' @ [NL] @
     ''  }'' @ [NL] @
     ''}'' @ [NL]"

definition c1_call :: node where
  "c1_call =
     (Node ''ExpressionStatement'' (mkLoc 3 4 3 22) (82, 100)
       [(''expression'', PNode
         (Node ''AwaitExpression'' (mkLoc 3 4 3 21) (82, 99)
           [(''argument'', PNode
             (Node ''CallExpression'' (mkLoc 3 10 3 21) (88, 99)
               [(''callee'', PNode
                 (Node ''MemberExpression'' (mkLoc 3 10 3 19) (88, 97)
                   [(''object'', PNode
                     (Node ''ThisExpression'' (mkLoc 3 10 3 14) (88, 92)
                       [])),
                    (''property'', PNode
                     (Node ''Identifier'' (mkLoc 3 15 3 19) (93, 97)
                       [(''name'', PStr ''step'')]))])),
                (''arguments'', PNodes [])]))]))])"

definition c1_program :: node where
  "c1_program =
     (Node ''Program'' (mkLoc 1 0 9 0) (0, 153)
       [(''body'', PNodes
           [Some
               (Node ''ExportNamedDeclaration'' (mkLoc 1 0 8 1) (0, 152)
                 [(''declaration'', PNode
                   (Node ''ClassDeclaration'' (mkLoc 1 7 8 1) (7, 152)
                     [(''id'', PNode
                       (Node ''Identifier'' (mkLoc 1 13 1 14) (13, 14)
                         [(''name'', PStr ''F'')])),
                      (''superClass'', PNode
                       (Node ''Identifier'' (mkLoc 1 23 1 33) (23, 33)
                         [(''name'', PStr ''BubbleFlow'')])),
                      (''body'', PNode
                       (Node ''ClassBody'' (mkLoc 1 50 8 1) (50, 152)
                         [(''body'', PNodes
                             [Some
                                 (Node ''MethodDefinition'' (mkLoc 2 2 4 3) (54, 104)
                                   [(''key'', PNode
                                     (Node ''Identifier'' (mkLoc 2 8 2 14) (60, 66)
                                       [(''name'', PStr ''handle'')])),
                                    (''value'', PNode
                                     (Node ''FunctionExpression'' (mkLoc 2 14 4 3) (66, 104)
                                       [(''params'', PNodes
                                           [Some
                                               (Node ''Identifier'' (mkLoc 2 15 2 22) (67, 74)
                                                 [(''name'', PStr ''payload'')])]),
                                        (''body'', PNode
                                         (Node ''BlockStatement'' (mkLoc 2 24 4 3) (76, 104)
                                           [(''body'', PNodes
                                               [Some
                                                   c1_call])]))])),
                                    (''kind'', PStr ''method'')]),
                              Some
                                 (Node ''MethodDefinition'' (mkLoc 5 2 7 3) (107, 150)
                                   [(''key'', PNode
                                     (Node ''Identifier'' (mkLoc 5 8 5 12) (113, 117)
                                       [(''name'', PStr ''step'')])),
                                    (''value'', PNode
                                     (Node ''FunctionExpression'' (mkLoc 5 12 7 3) (117, 150)
                                       [(''params'', PNodes []),
                                        (''body'', PNode
                                         (Node ''BlockStatement'' (mkLoc 5 15 7 3) (120, 150)
                                           [(''body'', PNodes
                                               [Some
                                                   (Node ''VariableDeclaration'' (mkLoc 6 4 6 24) (126, 146)
                                                     [(''declarations'', PNodes
                                                         [Some
                                                             (Node ''VariableDeclarator'' (mkLoc 6 10 6 23) (132, 145)
                                                               [(''id'', PNode
                                                                 (Node ''Identifier'' (mkLoc 6 10 6 11) (132, 133)
                                                                   [(''name'', PStr ''b'')])),
                                                                (''init'', PNode
                                                                 (Node ''NewExpression'' (mkLoc 6 14 6 23) (136, 145)
                                                                   [(''callee'', PNode
                                                                     (Node ''Identifier'' (mkLoc 6 18 6 19) (140, 141)
                                                                       [(''name'', PStr ''X'')])),
                                                                    (''arguments'', PNodes
                                                                       [Some
                                                                           (Node ''ObjectExpression'' (mkLoc 6 20 6 22) (142, 144)
                                                                             [(''properties'', PNodes [])])])]))])]),
                                                      (''kind'', PStr ''const'')])])]))])),
                                    (''kind'', PStr ''method'')])])]))]))])])])"

definition c1_b :: variable where
  "c1_b = \<lparr>var_id = 6, var_name = ''b'', var_defs = [mkLoc 6 10 6 23],
     var_scope_type = ''function''\<rparr>"

definition c1_scopes :: scopeManager where
  "c1_scopes =
     (let global = Scope ''global'' (mkLoc 1 0 9 0) [] None;
          module = Scope ''module'' (mkLoc 1 0 9 0)
            [\<lparr>var_id = 1, var_name = ''F'', var_defs = [mkLoc 1 7 8 1],
              var_scope_type = ''module''\<rparr>] (Some global);
          class = Scope ''class'' (mkLoc 1 7 8 1)
            [\<lparr>var_id = 2, var_name = ''F'', var_defs = [mkLoc 1 7 8 1],
              var_scope_type = ''class''\<rparr>] (Some module);
          handle = Scope ''function'' (mkLoc 2 14 4 3)
            [\<lparr>var_id = 3, var_name = ''arguments'', var_defs = [],
              var_scope_type = ''function''\<rparr>,
             \<lparr>var_id = 4, var_name = ''payload'', var_defs = [mkLoc 2 14 4 3],
              var_scope_type = ''function''\<rparr>] (Some class);
          step = Scope ''function'' (mkLoc 5 12 7 3)
            [\<lparr>var_id = 5, var_name = ''arguments'', var_defs = [],
              var_scope_type = ''function''\<rparr>, c1_b] (Some class)
      in [global, module, class, handle, step])"

definition c1_ctx :: parserCtx where
  "c1_ctx = \<lparr>px_script = c1_script, px_lookup = c3_lookup, px_scopes = c1_scopes\<rparr>"

definition c1_bubbles :: bubbles where
  "c1_bubbles =
     [(6, \<lparr>variableId = 6, variableName = ''b'', bubbleName = ''x-bubble'', className = ''X'',
           parameters = [], hasAwait = False, hasActionCall = False, nodeType = ''service'',
           bubbleLocation = \<lparr>startLine = 6, startCol = 14, endLine = 6, endCol = 23\<rparr>,
           description = None, dependencies = None, dependencyGraph = None\<rparr>)]"

chapter \<open>Properties\<close>

section \<open>Properties of the visible-variables query\<close>

lemma set_set_add:
  "inj_on var_id (insert v (set acc)) \<Longrightarrow> set (set_add acc v) = insert v (set acc)"
  by (auto simp: set_add_def inj_on_def)

lemma set_set_add_all:
  "inj_on var_id (set acc \<union> set vs) \<Longrightarrow> set (set_add_all acc vs) = set acc \<union> set vs"
proof (induction vs arbitrary: acc)
  case Nil
  then show ?case by (simp add: set_add_all_def)
next
  case (Cons v vs)
  have i1: "inj_on var_id (insert v (set acc))"
    using Cons.prems by (rule inj_on_subset) auto
  have s1: "set (set_add acc v) = insert v (set acc)" using i1 by (rule set_set_add)
  have i2: "inj_on var_id (set (set_add acc v) \<union> set vs)"
    using Cons.prems unfolding s1 by (rule inj_on_subset) auto
  have "set (set_add_all (set_add acc v) vs) = set (set_add acc v) \<union> set vs"
    using i2 by (rule Cons.IH)
  then show ?case by (simp add: set_add_all_def s1)
qed

lemma set_add_parents:
  "inj_on var_id (set acc \<union> (\<Union>p \<in> set (ancestors up). set (scope_variables p))) \<Longrightarrow>
   set (add_parents acc up) = set acc \<union> (\<Union>p \<in> set (ancestors up). set (scope_variables p))"
proof (induction acc up rule: add_parents.induct)
  case (1 acc)
  then show ?case by simp
next
  case (2 acc t b vs up)
  have i1: "inj_on var_id (set acc \<union> set vs)"
    using "2.prems" by (rule inj_on_subset) auto
  have s1: "set (set_add_all acc vs) = set acc \<union> set vs" using i1 by (rule set_set_add_all)
  have i2: "inj_on var_id (set (set_add_all acc vs) \<union> (\<Union>p \<in> set (ancestors up). set (scope_variables p)))"
    using "2.prems" unfolding s1 by (rule inj_on_subset) auto
  show ?case using "2.IH"[OF i2] by (auto simp: s1)
qed

lemma set_add_scope:
  assumes "inj_on var_id (set acc \<union> chain_vars s)"
  shows "set (add_scope acc s) = set acc \<union> chain_vars s"
proof -
  have i1: "inj_on var_id (set acc \<union> set (scope_variables s))"
    using assms by (rule inj_on_subset) (auto simp: chain_vars_def)
  have s1: "set (set_add_all acc (scope_variables s)) = set acc \<union> set (scope_variables s)"
    using i1 by (rule set_set_add_all)
  have i2: "inj_on var_id (set (set_add_all acc (scope_variables s)) \<union>
        (\<Union>p \<in> set (ancestors (upper s)). set (scope_variables p)))"
    using assms unfolding s1 by (rule inj_on_subset) (auto simp: chain_vars_def)
  show ?thesis unfolding add_scope_def using set_add_parents[OF i2]
    by (auto simp: s1 chain_vars_def)
qed

lemma set_foldl_add_scope:
  "inj_on var_id (set acc \<union> (\<Union>s \<in> set ss. chain_vars s)) \<Longrightarrow>
   set (foldl add_scope acc ss) = set acc \<union> (\<Union>s \<in> set ss. chain_vars s)"
proof (induction ss arbitrary: acc)
  case Nil
  then show ?case by simp
next
  case (Cons s ss)
  have i1: "inj_on var_id (set acc \<union> chain_vars s)"
    using Cons.prems by (rule inj_on_subset) auto
  have s1: "set (add_scope acc s) = set acc \<union> chain_vars s" using i1 by (rule set_add_scope)
  have i2: "inj_on var_id (set (add_scope acc s) \<union> (\<Union>s \<in> set ss. chain_vars s))"
    using Cons.prems unfolding s1 by (rule inj_on_subset) auto
  show ?case using Cons.IH[OF i2] by (auto simp: s1)
qed

lemma set_getAllScopesContainingLine:
  "set (getAllScopesContainingLine scopes l) = {s \<in> set scopes. containsLine l s}"
  by (auto simp: getAllScopesContainingLine_def)

lemma getVarsForLine_set:
  assumes "inj_on var_id (accessible scopes l)"
  shows "set (getVarsForLine scopes l) =
     {v \<in> accessible scopes l. \<not> isGlobalVariable v \<and> isVariableDeclaredBeforeLine v l}"
proof -
  let ?cs = "getAllScopesContainingLine scopes l"
  have acc: "accessible scopes l = (\<Union>s \<in> set ?cs. chain_vars s)"
    by (simp add: accessible_def set_getAllScopesContainingLine)
  have "inj_on var_id (set [] \<union> (\<Union>s \<in> set ?cs. chain_vars s))"
    using assms by (simp add: acc)
  then have "set (foldl add_scope [] ?cs) = accessible scopes l"
    using set_foldl_add_scope[of "[]" ?cs] by (simp add: acc)
  moreover have "?cs = [] \<Longrightarrow> accessible scopes l = {}"
    by (simp add: acc)
  ultimately show ?thesis
    by (auto simp: getVarsForLine_def Let_def)
qed

text \<open>
  C6. The claim says that a variable declared inside a for-loop body is returned for the
  lines inside the body. In the script above \<open>dataArray\<close> is declared on line 3, inside the
  body of the loop, in a block scope that contains line 3, and it is declared at or before
  line 3; yet the query at line 3 returns only \<open>i\<close> and \<open>a\<close>: \<open>isGlobalVariable\<close> takes every
  name that includes \<open>Array\<close> for a built-in.
\<close>

theorem getVarsForLine_omits_dataArray:
  "getVarsForLine c6_scopes 3 = [c6_i, c6_a] \<and>
   c6_dataArray \<in> set (scope_variables c6_block) \<and>
   containsLine 3 c6_block \<and>
   isVariableDeclaredBeforeLine c6_dataArray 3 \<and>
   var_scope_type c6_dataArray = ''block'' \<and>
   isGlobalVariable c6_dataArray"
  by (simp add: getVarsForLine_def getAllScopesContainingLine_def c6_scopes_def c6_global_def
      c6_module_def c6_for_def c6_block_def c6_a_def c6_i_def c6_dataArray_def containsLine_def
      scopeStart_def scopeEnd_def scopeRange_def scopePriority_def add_scope_def set_add_all_def
      set_add_def isGlobalVariable_def globalNames_def startsWith_def
      isVariableDeclaredBeforeLine_def declaredAtOrBefore_def)

section \<open>Properties of the mutators\<close>

lemma split_on_not_Nil: "split_on c s \<noteq> []"
  by (induction s) (auto split: list.splits)

lemma split_on_no_sep: "c \<notin> set s \<Longrightarrow> split_on c s = [s]"
  by (induction s) auto

lemma split_on_pieces: "l \<in> set (split_on c s) \<Longrightarrow> c \<notin> set l"
proof (induction s arbitrary: l)
  case Nil
  then show ?case by simp
next
  case (Cons x xs)
  show ?case
  proof (cases "x = c")
    case True
    with Cons show ?thesis by auto
  next
    case False
    obtain h t where ht: "split_on c xs = h # t"
      using split_on_not_Nil[of c xs] by (cases "split_on c xs") auto
    with Cons False show ?thesis by auto
  qed
qed

lemma split_on_append: "split_on c (a @ c # b) = split_on c a @ split_on c b"
proof (induction a)
  case Nil
  then show ?case by simp
next
  case (Cons x xs)
  obtain h t where ht: "split_on c xs = h # t"
    using split_on_not_Nil[of c xs] by (cases "split_on c xs") auto
  with Cons show ?case by auto
qed

lemma split_on_join:
  "xs \<noteq> [] \<Longrightarrow> split_on c (join [c] xs) = concat (map (split_on c) xs)"
proof (induction xs)
  case Nil
  then show ?case by simp
next
  case (Cons x xs)
  show ?case
  proof (cases xs)
    case Nil
    then show ?thesis by simp
  next
    case (Cons y ys)
    with Cons.IH show ?thesis by (simp add: split_on_append)
  qed
qed

lemma concat_split_singletons:
  "\<forall>l \<in> set pre. c \<notin> set l \<Longrightarrow> concat (map (split_on c) pre) = pre"
  by (induction pre) (auto simp: split_on_no_sep)

lemma split_join_nth:
  assumes "\<forall>l \<in> set pre. c \<notin> set l" and "c \<notin> set x"
  shows "split_on c (join [c] (pre @ x # rest)) ! length pre = x"
proof -
  have "split_on c (join [c] (pre @ x # rest)) = pre @ [x] @ concat (map (split_on c) rest)"
    using assms by (simp add: split_on_join concat_split_singletons split_on_no_sep)
  then show ?thesis by (simp add: nth_append)
qed

lemma split_join_length:
  assumes "\<forall>l \<in> set pre. c \<notin> set l" and "c \<notin> set x"
  shows "length pre < length (split_on c (join [c] (pre @ x # rest)))"
proof -
  have "split_on c (join [c] (pre @ x # rest)) = pre @ [x] @ concat (map (split_on c) rest)"
    using assms by (simp add: split_on_join concat_split_singletons split_on_no_sep)
  then show ?thesis by simp
qed

lemma injectLines_line:
  assumes "fst (injectLines bs lines n) = Inr s" and "lines \<noteq> []" and "NL \<notin> set (hd lines)"
  shows "lineOf s (nat n) = Some (hd lines)"
proof -
  let ?sl = "split_on NL (currentBubbleScript bs)"
  let ?i = "nat (n - 1)"
  from assms(1) have n1: "1 \<le> n" and le: "?i \<le> length ?sl"
    by (auto simp: injectLines_def Let_def split: if_splits)
  from assms(1) n1 le have s: "s = join [NL] (take ?i ?sl @ lines @ drop ?i ?sl)"
    by (auto simp: injectLines_def Let_def split: if_splits)
  obtain x rest where lines: "lines = x # rest" using assms(2) by (cases lines) auto
  have pre: "\<forall>l \<in> set (take ?i ?sl). NL \<notin> set l"
    using split_on_pieces[of _ NL "currentBubbleScript bs"] by (auto dest: in_set_takeD)
  have x: "NL \<notin> set x" using assms(3) lines by simp
  have len: "length (take ?i ?sl) = ?i" using le by simp
  have s': "s = join [NL] (take ?i ?sl @ x # (rest @ drop ?i ?sl))"
    using s lines by simp
  have nth: "split_on NL s ! ?i = x"
    using split_join_nth[OF pre x, of "rest @ drop ?i ?sl"] len s' by simp
  have lt: "?i < length (split_on NL s)"
    using split_join_length[OF pre x, of "rest @ drop ?i ?sl"] len s' by simp
  have "nat n - 1 = ?i" using n1 by simp
  moreover have "1 \<le> nat n" using n1 by simp
  moreover have "nat n \<le> length (split_on NL s)" using lt n1 by simp
  ultimately show ?thesis using nth lines by (simp add: lineOf_def)
qed

lemma injectLines_error_unchanged:
  "isl (fst (injectLines bs lines n)) \<Longrightarrow> snd (injectLines bs lines n) = bs"
  by (auto simp: injectLines_def Let_def split: if_splits)

lemma reassignVariable_error_unchanged:
  "isl (fst (reassignVariable bs vid nv)) \<Longrightarrow> snd (reassignVariable bs vid nv) = bs"
  by (auto simp: reassignVariable_def reassignLine_def Let_def split: if_splits option.splits)

lemma injectLines_throws:
  "n < 1 \<or> n > int (length (split_on NL (currentBubbleScript bs))) + 1 \<Longrightarrow>
   isl (fst (injectLines bs lines n))"
  by (auto simp: injectLines_def Let_def)

lemma injectLines_succeeds:
  "1 \<le> n \<Longrightarrow> n \<le> int (length (split_on NL (currentBubbleScript bs))) + 1 \<Longrightarrow>
   \<not> isl (fst (injectLines bs lines n))"
  by (auto simp: injectLines_def Let_def)

text \<open>
  C9. \<open>reassignVariable\<close> throws when the variable id is unknown and when neither pattern
  matches the variable's declaration line; \<open>injectLines\<close> throws exactly when the line number
  is below 1 or beyond the position just after the last line (that position appends); in
  every error case of either mutator the object, and so its source buffer, is as it was;
  and after a successful \<open>injectLines\<close> whose first new line is one line (it holds no line
  break), line \<open>n\<close> of the resulting text is that line.
\<close>

theorem mutators_throw_and_keep_buffer:
  "(scriptVariables bs vid = None \<longrightarrow>
      reassignVariable bs vid nv = (Inl (VariableNotFound vid), bs)) \<and>
   (scriptVariables bs vid = Some v \<and> variableLocations bs vid = Some loc \<and>
    lineOf (currentBubbleScript bs) (startLine loc) = Some l \<and>
    \<not> re_test (variablePattern (var_name v)) l \<and>
    \<not> re_test (assignmentPattern (var_name v)) l \<longrightarrow>
      reassignVariable bs vid nv = (Inl (PatternNotFound (var_name v) (startLine loc)), bs)) \<and>
   (isl (fst (reassignVariable bs vid nv)) \<longrightarrow> snd (reassignVariable bs vid nv) = bs) \<and>
   (isl (fst (injectLines bs lines n)) \<longleftrightarrow>
      n < 1 \<or> n > int (length (split_on NL (currentBubbleScript bs))) + 1) \<and>
   (isl (fst (injectLines bs lines n)) \<longrightarrow> snd (injectLines bs lines n) = bs) \<and>
   (fst (injectLines bs lines n) = Inr s \<and> lines \<noteq> [] \<and> NL \<notin> set (hd lines) \<longrightarrow>
      lineOf s (nat n) = Some (hd lines))"
proof (intro conjI impI)
  assume "scriptVariables bs vid = None"
  then show "reassignVariable bs vid nv = (Inl (VariableNotFound vid), bs)"
    by (simp add: reassignVariable_def)
next
  assume a: "scriptVariables bs vid = Some v \<and> variableLocations bs vid = Some loc \<and>
    lineOf (currentBubbleScript bs) (startLine loc) = Some l \<and>
    \<not> re_test (variablePattern (var_name v)) l \<and>
    \<not> re_test (assignmentPattern (var_name v)) l"
  then have "1 \<le> startLine loc \<and> startLine loc \<le> length (split_on NL (currentBubbleScript bs))"
    and "split_on NL (currentBubbleScript bs) ! (startLine loc - 1) = l"
    by (auto simp: lineOf_def split: if_splits)
  with a show "reassignVariable bs vid nv =
      (Inl (PatternNotFound (var_name v) (startLine loc)), bs)"
    by (simp add: reassignVariable_def Let_def)
next
  assume "isl (fst (reassignVariable bs vid nv))"
  then show "snd (reassignVariable bs vid nv) = bs"
    by (rule reassignVariable_error_unchanged)
next
  show "isl (fst (injectLines bs lines n)) \<longleftrightarrow>
      n < 1 \<or> n > int (length (split_on NL (currentBubbleScript bs))) + 1"
    using injectLines_throws[of n bs lines] injectLines_succeeds[of n bs lines] by linarith
next
  assume "isl (fst (injectLines bs lines n))"
  then show "snd (injectLines bs lines n) = bs"
    by (rule injectLines_error_unchanged)
next
  assume "fst (injectLines bs lines n) = Inr s \<and> lines \<noteq> [] \<and> NL \<notin> set (hd lines)"
  then show "lineOf s (nat n) = Some (hd lines)"
    using injectLines_line by blast
qed

theorem mutators_throw_and_keep_buffer_witness:
  "reassignVariable c9_script 7 ''99'' = (Inl (VariableNotFound 7), c9_script) \<and>
   reassignVariable c9_script 1 ''99'' = (Inl (PatternNotFound ''x'' 1), c9_script) \<and>
   injectLines c9_script [''let z = 2;''] 4 = (Inl (LineNumberExceeds 4 2), c9_script) \<and>
   fst (injectLines c9_script [''let z = 2;''] 2) =
     Inr (''function f(x) {'' @ [NL] @ ''let z = 2;'' @ [NL] @ ''let b = 2; }'') \<and>
   lineOf (''function f(x) {'' @ [NL] @ ''let z = 2;'' @ [NL] @ ''let b = 2; }'') 2 =
     Some ''let z = 2;''"
proof -
  have inj: "fst (injectLines c9_script [''let z = 2;''] 2) =
     Inr (''function f(x) {'' @ [NL] @ ''let z = 2;'' @ [NL] @ ''let b = 2; }'')"
    by (simp add: injectLines_def c9_script_def NL_def Let_def)
  have nl: "NL \<notin> set (hd [''let z = 2;''])" by (simp add: NL_def)
  have t1: "\<not> re_test (variablePattern (var_name c9_x)) ''function f(x) {''" by code_simp
  have t2: "\<not> re_test (assignmentPattern (var_name c9_x)) ''function f(x) {''" by code_simp
  have ln: "lineOf (currentBubbleScript c9_script) 1 = Some ''function f(x) {''"
    by (simp add: lineOf_def c9_script_def NL_def)
  have sv: "scriptVariables c9_script 1 = Some c9_x"
    and vl: "variableLocations c9_script 1 =
      Some \<lparr>startLine = 1, startCol = 0, endLine = 2, endCol = 12\<rparr>"
    and none: "scriptVariables c9_script 7 = None"
    by (simp_all add: c9_script_def)
  have len: "length (split_on NL (currentBubbleScript c9_script)) = 2"
    by (simp add: c9_script_def NL_def)
  note T = mutators_throw_and_keep_buffer
  have a: "reassignVariable c9_script 7 ''99'' = (Inl (VariableNotFound 7), c9_script)"
    using T[of c9_script 7 "''99''"] none by blast
  have b: "reassignVariable c9_script 1 ''99'' = (Inl (PatternNotFound ''x'' 1), c9_script)"
    using T[of c9_script 1 "''99''" c9_x "\<lparr>startLine = 1, startCol = 0, endLine = 2, endCol = 12\<rparr>"
        "''function f(x) {''"] sv vl ln t1 t2
    by (simp add: c9_x_def)
  have c1: "isl (fst (injectLines c9_script [''let z = 2;''] 4))"
    and c2: "snd (injectLines c9_script [''let z = 2;''] 4) = c9_script"
    using T[of c9_script _ _ _ _ _ "[''let z = 2;'']" 4] len by simp_all
  have c: "injectLines c9_script [''let z = 2;''] 4 = (Inl (LineNumberExceeds 4 2), c9_script)"
    using c1 c2 len by (auto simp: injectLines_def Let_def split: if_splits)
  have d: "lineOf (''function f(x) {'' @ [NL] @ ''let z = 2;'' @ [NL] @ ''let b = 2; }'') 2 =
     Some ''let z = 2;''"
    using T[of c9_script _ _ _ _ _ "[''let z = 2;'']" 2] inj nl by simp
  show ?thesis using a b c inj d by blast
qed

section \<open>Properties of the dependency graph\<close>

lemma buildEach_agree:
  assumes "agree b1 b2 S" and "\<forall>c \<in> set cs. gc_seen c = S"
  shows "buildEach b1 cs oc = buildEach b2 cs oc"
    and "\<exists>r s. buildEach b2 cs oc = Some (r, s)"
proof -
  have "buildEach b1 cs oc = buildEach b2 cs oc \<and>
        (\<exists>r s. buildEach b2 cs oc = Some (r, s))"
    using assms(2)
  proof (induction cs arbitrary: oc)
    case Nil
    then show ?case by simp
  next
    case (Cons c cs)
    from assms(1) Cons.prems have h1: "b1 c oc = b2 c oc" and h2: "b2 c oc \<noteq> None"
      by (simp_all add: agree_def)
    from h2 obtain node oc' where r: "b2 c oc = Some (node, oc')" by (cases "b2 c oc") auto
    have p: "\<forall>c \<in> set cs. gc_seen c = S" using Cons.prems by simp
    have i1: "buildEach b1 cs oc' = buildEach b2 cs oc'"
      and i2: "\<exists>r s. buildEach b2 cs oc' = Some (r, s)"
      using Cons.IH[OF p, of oc'] by blast+
    from i2 obtain ns oc'' where r2: "buildEach b2 cs oc' = Some (ns, oc'')" by blast
    show ?case by (simp add: h1 r i1 r2)
  qed
  then show "buildEach b1 cs oc = buildEach b2 cs oc"
    and "\<exists>r s. buildEach b2 cs oc = Some (r, s)"
    by blast+
qed

lemma toolCall_seen: "\<forall>c \<in> set (map (toolCall S p) ts). gc_seen c = S"
  by (simp add: toolCall_def)

lemma directCall_seen: "\<forall>c \<in> set (map (directCall S p) ds). gc_seen c = S"
  by (simp add: directCall_def)

lemma buildInstance_agree:
  assumes "agree b1 b2 S"
  shows "buildInstance f b1 S uid spec iv oc = buildInstance f b2 S uid spec iv oc"
    and "\<exists>r s. buildInstance f b2 S uid spec iv oc = Some (r, s)"
proof -
  note e = buildEach_agree(1)[OF assms toolCall_seen]
  note n' = buildEach_agree(2)[OF assms toolCall_seen]
  have n: "\<And>p ts oc. buildEach b2 (map (toolCall S p) ts) oc \<noteq> None"
    using n' by simp
  have b: "\<And>c oc. gc_seen c = S \<Longrightarrow> b1 c oc = b2 c oc"
    and bn: "\<And>c oc. gc_seen c = S \<Longrightarrow> b2 c oc \<noteq> None"
    using assms by (simp_all add: agree_def)
  have bn': "\<And>c oc. gc_seen c = S \<Longrightarrow> \<exists>a b. b2 c oc = Some (a, b)"
    using bn by fastforce
  show "buildInstance f b1 S uid spec iv oc = buildInstance f b2 S uid spec iv oc"
    by (simp add: buildInstance_def Let_def e b split: option.splits)
  have "buildInstance f b2 S uid spec iv oc \<noteq> None"
    by (simp add: buildInstance_def Let_def n n' bn bn' split: option.splits)
  then show "\<exists>r s. buildInstance f b2 S uid spec iv oc = Some (r, s)" by simp
qed

lemma buildInstances_agree:
  assumes "agree b1 b2 S"
  shows "buildInstances f b1 S uid spec ivs oc = buildInstances f b2 S uid spec ivs oc"
    and "\<exists>r s. buildInstances f b2 S uid spec ivs oc = Some (r, s)"
proof -
  have "buildInstances f b1 S uid spec ivs oc = buildInstances f b2 S uid spec ivs oc \<and>
        (\<exists>r s. buildInstances f b2 S uid spec ivs oc = Some (r, s))"
  proof (induction ivs arbitrary: oc)
    case Nil
    then show ?case by simp
  next
    case (Cons iv ivs)
    note h1 = buildInstance_agree(1)[OF assms, of f uid spec iv oc]
    from buildInstance_agree(2)[OF assms, of f uid spec iv oc]
    obtain node oc' where r: "buildInstance f b2 S uid spec iv oc = Some (node, oc')" by blast
    have i1: "buildInstances f b1 S uid spec ivs oc' = buildInstances f b2 S uid spec ivs oc'"
      and i2: "\<exists>r s. buildInstances f b2 S uid spec ivs oc' = Some (r, s)"
      using Cons.IH[of oc'] by blast+
    from i2 obtain ns oc'' where r2: "buildInstances f b2 S uid spec ivs oc' = Some (ns, oc'')"
      by blast
    show ?case by (simp add: h1 r i1 r2)
  qed
  then show "buildInstances f b1 S uid spec ivs oc = buildInstances f b2 S uid spec ivs oc"
    and "\<exists>r s. buildInstances f b2 S uid spec ivs oc = Some (r, s)" by blast+
qed

lemma buildSpecs_agree:
  assumes "agree b1 b2 S"
  shows "buildSpecs f b1 S uid specs oc = buildSpecs f b2 S uid specs oc"
    and "\<exists>r s. buildSpecs f b2 S uid specs oc = Some (r, s)"
proof -
  have "buildSpecs f b1 S uid specs oc = buildSpecs f b2 S uid specs oc \<and>
        (\<exists>r s. buildSpecs f b2 S uid specs oc = Some (r, s))"
  proof (induction specs arbitrary: oc)
    case Nil
    then show ?case by simp
  next
    case (Cons spec specs)
    note h1 = buildInstances_agree(1)[OF assms, of f uid spec "instanceNames spec" oc]
    from buildInstances_agree(2)[OF assms, of f uid spec "instanceNames spec" oc]
    obtain ns oc' where
      r: "buildInstances f b2 S uid spec (instanceNames spec) oc = Some (ns, oc')" by blast
    have i1: "buildSpecs f b1 S uid specs oc' = buildSpecs f b2 S uid specs oc'"
      and i2: "\<exists>r s. buildSpecs f b2 S uid specs oc' = Some (r, s)"
      using Cons.IH[of oc'] by blast+
    from i2 obtain ns' oc'' where r2: "buildSpecs f b2 S uid specs oc' = Some (ns', oc'')"
      by blast
    show ?case by (simp add: h1 r i1 r2)
  qed
  then show "buildSpecs f b1 S uid specs oc = buildSpecs f b2 S uid specs oc"
    and "\<exists>r s. buildSpecs f b2 S uid specs oc = Some (r, s)" by blast+
qed

lemma registryChildren_agree:
  assumes "agree b1 b2 S"
  shows "registryChildren f b1 name S uid oc = registryChildren f b2 name S uid oc"
    and "\<exists>r s. registryChildren f b2 name S uid oc = Some (r, s)"
proof -
  note e = buildEach_agree(1)[OF assms directCall_seen]
  note n' = buildEach_agree(2)[OF assms directCall_seen]
  have n: "\<And>p ds oc. buildEach b2 (map (directCall S p) ds) oc \<noteq> None"
    using n' by simp
  note se = buildSpecs_agree(1)[OF assms]
  note sn' = buildSpecs_agree(2)[OF assms]
  have sn: "\<And>f uid specs oc. buildSpecs f b2 S uid specs oc \<noteq> None"
    using sn' by simp
  show "registryChildren f b1 name S uid oc = registryChildren f b2 name S uid oc"
    by (simp add: registryChildren_def Let_def e se del: buildSpecs.simps
          split: option.splits list.splits)
  have "registryChildren f b2 name S uid oc \<noteq> None"
    by (simp add: registryChildren_def Let_def n n' sn sn' del: buildSpecs.simps
          split: option.splits list.splits)
  then show "\<exists>r s. registryChildren f b2 name S uid oc = Some (r, s)" by simp
qed

lemma ownToolChildren_agree:
  assumes "agree b1 b2 S"
  shows "ownToolChildren b1 name tools S uid oc = ownToolChildren b2 name tools S uid oc"
    and "\<exists>r s. ownToolChildren b2 name tools S uid oc = Some (r, s)"
proof -
  note e = buildEach_agree(1)[OF assms toolCall_seen]
  note n' = buildEach_agree(2)[OF assms toolCall_seen]
  have n: "\<And>p ts oc. buildEach b2 (map (toolCall S p) ts) oc \<noteq> None"
    using n' by simp
  show "ownToolChildren b1 name tools S uid oc = ownToolChildren b2 name tools S uid oc"
    by (simp add: ownToolChildren_def e split: option.splits)
  have "ownToolChildren b2 name tools S uid oc \<noteq> None"
    by (simp add: ownToolChildren_def n n' split: option.splits)
  then show "\<exists>r s. ownToolChildren b2 name tools S uid oc = Some (r, s)" by simp
qed

lemma buildNode_agree:
  assumes "agree b1 b2 (insert (gc_bubbleName call) (gc_seen call))"
  shows "buildNode f b1 call oc = buildNode f b2 call oc"
    and "buildNode f b2 call oc \<noteq> None"
proof -
  note re = registryChildren_agree(1)[OF assms]
  note rn' = registryChildren_agree(2)[OF assms]
  have rn: "\<And>f name uid oc. registryChildren f b2 name
       (insert (gc_bubbleName call) (gc_seen call)) uid oc \<noteq> None"
    using rn' by simp
  note te = ownToolChildren_agree(1)[OF assms]
  note tn' = ownToolChildren_agree(2)[OF assms]
  have tn: "\<And>name tools uid oc. ownToolChildren b2 name tools
       (insert (gc_bubbleName call) (gc_seen call)) uid oc \<noteq> None"
    using tn' by simp
  show "buildNode f b1 call oc = buildNode f b2 call oc"
    by (simp add: buildNode_def Let_def re te split: option.splits)
  show "buildNode f b2 call oc \<noteq> None"
    by (simp add: buildNode_def Let_def rn rn' tn tn' split: option.splits)
qed

lemma buildNode_seen:
  "gc_bubbleName call \<in> gc_seen call \<Longrightarrow>
   buildNode f b call oc =
     Some (DependencyGraphNode (gc_bubbleName call) (nodeTypeOf f (gc_bubbleName call))
             (nodeUniqueId call oc) (nodeVariableId call oc) (gc_instanceVariableName call) [],
           countNode call oc)"
  by (simp add: buildNode_def Let_def)

lemma buildNode_unregistered:
  assumes "gc_bubbleName call \<notin> expandable f"
  shows "buildNode f b1 call oc = buildNode f b2 call oc" and "buildNode f b2 call oc \<noteq> None"
proof -
  have m: "map_of f (gc_bubbleName call) = None"
    using assms by (simp add: expandable_def map_of_eq_None_iff)
  have a: "gc_bubbleName call \<noteq> ''ai-agent''" using assms by (auto simp: expandable_def)
  show "buildNode f b1 call oc = buildNode f b2 call oc"
    using m a by (simp add: buildNode_def Let_def getMetadata_def registryChildren_def
        ownToolChildren_def)
  show "buildNode f b2 call oc \<noteq> None"
    using m a by (simp add: buildNode_def Let_def getMetadata_def registryChildren_def
        ownToolChildren_def)
qed

lemma finite_expandable: "finite (expandable f)"
  by (simp add: expandable_def)

lemma enoughDepth_insert:
  assumes "x \<in> expandable f" and "x \<notin> S"
  shows "Suc (enoughDepth f (insert x S)) = enoughDepth f S"
proof -
  have "expandable f - insert x S = (expandable f - S) - {x}" by auto
  moreover have "x \<in> expandable f - S" using assms by simp
  moreover have "finite (expandable f - S)" using finite_expandable by simp
  ultimately show ?thesis
    using card_Suc_Diff1[of "expandable f - S" x] by (simp add: enoughDepth_def)
qed

text \<open>Beyond the depth that is enough, one more level changes nothing.\<close>

lemma buildDependencyGraph_stable:
  "enoughDepth f (gc_seen call) \<le> n \<Longrightarrow>
   buildDependencyGraph n f call oc = buildDependencyGraph (Suc n) f call oc \<and>
   buildDependencyGraph (Suc n) f call oc \<noteq> None"
proof (induction n arbitrary: call oc)
  case 0
  then show ?case by (simp add: enoughDepth_def)
next
  case (Suc n)
  show ?case
  proof (cases "gc_bubbleName call \<in> gc_seen call")
    case True
    then show ?thesis by (simp add: buildNode_seen)
  next
    case False
    show ?thesis
    proof (cases "gc_bubbleName call \<in> expandable f")
      case True
      with False Suc.prems have d: "enoughDepth f (insert (gc_bubbleName call) (gc_seen call)) \<le> n"
        using enoughDepth_insert[of "gc_bubbleName call" f "gc_seen call"] by simp
      have ag: "agree (buildDependencyGraph n f) (buildDependencyGraph (Suc n) f)
              (insert (gc_bubbleName call) (gc_seen call))"
        unfolding agree_def
      proof (intro allI impI)
        fix c :: graphCall and o' :: ordinalCounters
        assume "gc_seen c = insert (gc_bubbleName call) (gc_seen call)"
        with d have "enoughDepth f (gc_seen c) \<le> n" by simp
        from Suc.IH[OF this, of o']
        show "buildDependencyGraph n f c o' = buildDependencyGraph (Suc n) f c o' \<and>
              buildDependencyGraph (Suc n) f c o' \<noteq> None" .
      qed
      show ?thesis
        using buildNode_agree(1)[OF ag, of f oc] buildNode_agree(2)[OF ag, of f oc] by simp
    next
      case False
      show ?thesis
        using buildNode_unregistered(1)[OF False, of "buildDependencyGraph n f" oc
                "buildDependencyGraph (Suc n) f"]
              buildNode_unregistered(2)[OF False, of "buildDependencyGraph (Suc n) f" oc]
        by simp
    qed
  qed
qed

lemma buildDependencyGraph_enough:
  assumes "enoughDepth f (gc_seen call) \<le> n"
  shows "buildDependencyGraph n f call oc =
         buildDependencyGraph (enoughDepth f (gc_seen call)) f call oc"
  using assms
proof (induction n)
  case 0
  then show ?case by simp
next
  case (Suc n)
  show ?case
  proof (cases "enoughDepth f (gc_seen call) \<le> n")
    case True
    with Suc.IH buildDependencyGraph_stable[OF True, of oc] show ?thesis by simp
  next
    case False
    with Suc.prems have "enoughDepth f (gc_seen call) = Suc n" by simp
    then show ?thesis by simp
  qed
qed

lemma buildDependencyGraph_returns:
  assumes "enoughDepth f (gc_seen call) \<le> n"
  shows "buildDependencyGraph n f call oc \<noteq> None"
proof -
  have "buildDependencyGraph n f call oc = buildDependencyGraph (Suc n) f call oc"
    and "buildDependencyGraph (Suc n) f call oc \<noteq> None"
    using buildDependencyGraph_stable[OF assms, of oc] by blast+
  then show ?thesis by simp
qed


lemma buildDependencyGraph_name:
  "buildDependencyGraph n f call oc = Some (node, oc') \<Longrightarrow> dg_name node = gc_bubbleName call"
  by (cases n) (auto simp: buildNode_def Let_def split: if_splits option.splits)

lemma buildEach_names:
  assumes "\<And>c oc node oc'. build c oc = Some (node, oc') \<Longrightarrow> dg_name node = gc_bubbleName c"
  shows "buildEach build cs oc = Some (nodes, oc') \<Longrightarrow> map dg_name nodes = map gc_bubbleName cs"
proof (induction cs arbitrary: oc nodes)
  case Nil
  then show ?case by simp
next
  case (Cons c cs)
  then show ?case using assms
    by (auto split: option.splits)
qed

lemma syntheticAgent:
  assumes "spec_name spec = ''ai-agent''" and "spec_tools spec = Some tools"
    and "''ai-agent'' \<in> nextSeen" and "enoughDepth f nextSeen \<le> n"
  shows "\<exists>children oc'.
     buildInstance f (buildDependencyGraph n f) nextSeen uniqueId spec iv oc =
       Some (DependencyGraphNode ''ai-agent'' (nodeTypeOf f ''ai-agent'')
               (uniqueId @ ''.ai-agent#'' @ showNat (nextOrdinal oc (countKey uniqueId ''ai-agent'')))
               (hashUniqueIdToVarId
                  (uniqueId @ ''.ai-agent#'' @ showNat (nextOrdinal oc (countKey uniqueId ''ai-agent''))))
               iv children, oc') \<and>
     map dg_name children = tools"
proof -
  let ?b = "buildDependencyGraph n f"
  let ?uid = "uniqueId @ ''.ai-agent#'' @ showNat (nextOrdinal oc (countKey uniqueId ''ai-agent''))"
  let ?oc1 = "oc(countKey uniqueId ''ai-agent'' \<mapsto> nextOrdinal oc (countKey uniqueId ''ai-agent''))"
  have ag: "agree ?b ?b nextSeen"
    unfolding agree_def using buildDependencyGraph_returns[of f _ n] assms(4) by simp
  from buildEach_agree(2)[OF ag toolCall_seen, of ?uid tools ?oc1]
  obtain children oc' where
    r: "buildEach ?b (map (toolCall nextSeen ?uid) tools) ?oc1 = Some (children, oc')" by blast
  have "map dg_name children = map gc_bubbleName (map (toolCall nextSeen ?uid) tools)"
    using buildEach_names[of ?b, OF _ r] buildDependencyGraph_name by blast
  then have nm: "map dg_name children = tools" by (simp add: toolCall_def comp_def)
  have "buildInstance f ?b nextSeen uniqueId spec iv oc =
       Some (DependencyGraphNode ''ai-agent'' (nodeTypeOf f ''ai-agent'') ?uid
               (hashUniqueIdToVarId ?uid) iv children, oc')"
    using assms(1-3) r by (simp add: buildInstance_def Let_def)
  with nm show ?thesis by blast
qed

text \<open>
  C8. Building the dependency graph returns for every registry, every call and every state
  of the ordinal counters: from a depth that depends only on the registry and the path on,
  the result is one and the same node. A name that is already on the path gives a leaf
  without dependencies. A spec for an \<open>ai-agent\<close> with tools, met when \<open>ai-agent\<close> is on the
  path, gives a synthesized \<open>ai-agent\<close> node whose children are the nodes of its tools.
\<close>

theorem buildDependencyGraph_terminates:
  "(\<exists>r. \<forall>n. enoughDepth factory (gc_seen call) \<le> n \<longrightarrow>
         buildDependencyGraph n factory call oc = Some r) \<and>
   (gc_bubbleName call \<in> gc_seen call \<longrightarrow>
      (\<exists>node oc'. buildDependencyGraph (Suc n) factory call oc = Some (node, oc') \<and>
         dg_name node = gc_bubbleName call \<and> dg_dependencies node = [])) \<and>
   (spec_name spec = ''ai-agent'' \<and> spec_tools spec = Some tools \<and>
    ''ai-agent'' \<in> nextSeen \<and> enoughDepth factory nextSeen \<le> n \<longrightarrow>
      (\<exists>children oc'.
         buildInstance factory (buildDependencyGraph n factory) nextSeen uniqueId spec iv oc =
           Some (DependencyGraphNode ''ai-agent'' (nodeTypeOf factory ''ai-agent'')
                   (uniqueId @ ''.ai-agent#'' @
                    showNat (nextOrdinal oc (countKey uniqueId ''ai-agent'')))
                   (hashUniqueIdToVarId
                      (uniqueId @ ''.ai-agent#'' @
                       showNat (nextOrdinal oc (countKey uniqueId ''ai-agent''))))
                   iv children, oc') \<and>
         map dg_name children = tools))"
proof (intro conjI impI)
  let ?d = "enoughDepth factory (gc_seen call)"
  have "buildDependencyGraph ?d factory call oc \<noteq> None"
    by (rule buildDependencyGraph_returns) simp
  then obtain r where r: "buildDependencyGraph ?d factory call oc = Some r" by blast
  have "\<forall>n. ?d \<le> n \<longrightarrow> buildDependencyGraph n factory call oc = Some r"
    using buildDependencyGraph_enough[of factory call _ oc] r by simp
  then show "\<exists>r. \<forall>n. ?d \<le> n \<longrightarrow> buildDependencyGraph n factory call oc = Some r" by blast
next
  assume "gc_bubbleName call \<in> gc_seen call"
  then show "\<exists>node oc'. buildDependencyGraph (Suc n) factory call oc = Some (node, oc') \<and>
         dg_name node = gc_bubbleName call \<and> dg_dependencies node = []"
    by (simp add: buildNode_seen)
next
  assume "spec_name spec = ''ai-agent'' \<and> spec_tools spec = Some tools \<and>
    ''ai-agent'' \<in> nextSeen \<and> enoughDepth factory nextSeen \<le> n"
  then show "\<exists>children oc'.
         buildInstance factory (buildDependencyGraph n factory) nextSeen uniqueId spec iv oc =
           Some (DependencyGraphNode ''ai-agent'' (nodeTypeOf factory ''ai-agent'')
                   (uniqueId @ ''.ai-agent#'' @
                    showNat (nextOrdinal oc (countKey uniqueId ''ai-agent'')))
                   (hashUniqueIdToVarId
                      (uniqueId @ ''.ai-agent#'' @
                       showNat (nextOrdinal oc (countKey uniqueId ''ai-agent''))))
                   iv children, oc') \<and>
         map dg_name children = tools"
    using syntheticAgent[of spec tools nextSeen factory n uniqueId iv oc] by blast
qed

theorem buildDependencyGraph_terminates_witness:
  "map_option fst (buildDependencyGraph 4 c8_factory c8_call Map.empty) = Some c8_graph \<and>
   (\<exists>r. \<forall>n. 4 \<le> n \<longrightarrow> buildDependencyGraph n c8_factory c8_call Map.empty = Some r) \<and>
   (\<exists>node oc'. buildDependencyGraph (Suc 0) c8_factory (toolCall {''ai-agent''} ''5'' ''ai-agent'')
        Map.empty = Some (node, oc') \<and>
      dg_name node = ''ai-agent'' \<and> dg_dependencies node = []) \<and>
   (\<exists>children oc'.
      buildInstance c8_factory (buildDependencyGraph 2 c8_factory)
        {''ai-agent'', ''research-agent-tool''} ''5.research-agent-tool#1''
        \<lparr>spec_name = ''ai-agent'', spec_tools = Some [''web-search-tool''],
         spec_instances = None\<rparr> None Map.empty =
      Some (DependencyGraphNode ''ai-agent'' ''service'' ''5.research-agent-tool#1.ai-agent#1''
              (hashUniqueIdToVarId ''5.research-agent-tool#1.ai-agent#1'') None children, oc') \<and>
      map dg_name children = [''web-search-tool''])"
proof -
  have four: "buildDependencyGraph 4 = buildDependencyGraph (Suc (Suc (Suc (Suc 0))))"
    by (simp add: numeral_eq_Suc)
  have ev: "map_option fst (buildDependencyGraph 4 c8_factory c8_call Map.empty) = Some c8_graph"
    unfolding four
    by (simp add: c8_factory_def c8_call_def c8_graph_def buildNode_def Let_def
       registryChildren_def ownToolChildren_def getMetadata_def nodeUniqueId_def
       nodeVariableId_def countNode_def nodeOrdinal_def nextOrdinal_def countKey_def
       childUniqueId_def toolCall_def directCall_def buildInstance_def instanceNames_def
       nodeTypeOf_def showNat.simps digitChar_def)
  have d4: "enoughDepth c8_factory (gc_seen c8_call) = 4"
    by (simp add: enoughDepth_def expandable_def c8_factory_def c8_call_def)
  have d2: "enoughDepth c8_factory {''ai-agent'', ''research-agent-tool''} = 2"
    by (simp add: enoughDepth_def expandable_def c8_factory_def)
  have nt: "nodeTypeOf c8_factory ''ai-agent'' = ''service''"
    by (simp add: nodeTypeOf_def getMetadata_def c8_factory_def)
  have sn: "showNat (nextOrdinal Map.empty (countKey ''5.research-agent-tool#1'' ''ai-agent'')) = ''1''"
    by (simp add: nextOrdinal_def showNat.simps digitChar_def)
  note T = buildDependencyGraph_terminates
  have a: "\<exists>r. \<forall>n. 4 \<le> n \<longrightarrow> buildDependencyGraph n c8_factory c8_call Map.empty = Some r"
    using T[of c8_factory c8_call Map.empty] d4 by simp
  have b: "\<exists>node oc'. buildDependencyGraph (Suc 0) c8_factory
        (toolCall {''ai-agent''} ''5'' ''ai-agent'') Map.empty = Some (node, oc') \<and>
      dg_name node = ''ai-agent'' \<and> dg_dependencies node = []"
    using T[of c8_factory "toolCall {''ai-agent''} ''5'' ''ai-agent''" Map.empty 0]
    by (simp add: toolCall_def)
  have c: "\<exists>children oc'.
      buildInstance c8_factory (buildDependencyGraph 2 c8_factory)
        {''ai-agent'', ''research-agent-tool''} ''5.research-agent-tool#1''
        \<lparr>spec_name = ''ai-agent'', spec_tools = Some [''web-search-tool''],
         spec_instances = None\<rparr> None Map.empty =
      Some (DependencyGraphNode ''ai-agent'' ''service'' ''5.research-agent-tool#1.ai-agent#1''
              (hashUniqueIdToVarId ''5.research-agent-tool#1.ai-agent#1'') None children, oc') \<and>
      map dg_name children = [''web-search-tool'']"
    using T[of c8_factory _ Map.empty 2 "\<lparr>spec_name = ''ai-agent'', spec_tools = Some [''web-search-tool''],
         spec_instances = None\<rparr>" "[''web-search-tool'']" "{''ai-agent'', ''research-agent-tool''}"
         "''5.research-agent-tool#1''" None] d2 nt sn
    by simp
  show ?thesis using ev a b c by blast
qed

section \<open>Properties of the comment above a node\<close>










section \<open>Properties of the bubble locator\<close>

lemma numbered_snoc:
  "numbered nodes \<Longrightarrow> namedEntry e \<or> anonymousAt (length nodes) e \<Longrightarrow> numbered (nodes @ [e])"
  by (auto simp: numbered_def nth_append less_Suc_eq)

lemma setBubble_named:
  assumes "numbered nodes" and "0 \<le> k" and "variableId b = k"
  shows "numbered (setBubble nodes k b)"
proof (cases "k \<in> fst ` set nodes")
  case True
  have "namedEntry (k, b)" using assms by (simp add: namedEntry_def)
  with assms(1) True show ?thesis
    by (auto simp: setBubble_def numbered_def split: prod.splits)
next
  case False
  then show ?thesis using assms
    by (auto simp: setBubble_def namedEntry_def intro!: numbered_snoc)
qed

lemma syntheticId_fresh:
  assumes "numbered nodes"
  shows "syntheticId nodes \<notin> fst ` set nodes"
proof
  assume "syntheticId nodes \<in> fst ` set nodes"
  then obtain i where i: "i < length nodes" "fst (nodes ! i) = syntheticId nodes"
    by (auto simp: in_set_conv_nth)
  with assms have "namedEntry (nodes ! i) \<or> anonymousAt i (nodes ! i)"
    by (simp add: numbered_def)
  with i show False
    by (auto simp: namedEntry_def anonymousAt_def syntheticId_def)
qed

lemma withDescription_keeps [simp]:
  "className (withDescription ctx node b) = className b"
  "variableName (withDescription ctx node b) = variableName b"
  "hasAwait (withDescription ctx node b) = hasAwait b"
  "hasActionCall (withDescription ctx node b) = hasActionCall b"
  by (simp_all add: withDescription_def split: option.splits)

lemma registerAnonymous_append:
  assumes "numbered nodes"
  shows "\<exists>b'. registerAnonymous ctx node c b nodes = nodes @ [(syntheticId nodes, b')] \<and>
           variableId b' = syntheticId nodes \<and>
           variableName b' = syntheticName nodes b \<and> className b' = className b \<and>
           hasAwait b' = hasAwait b \<and> hasActionCall b' = hasActionCall b"
  using syntheticId_fresh [OF assms]
  by (simp add: registerAnonymous_def setBubble_def Let_def)

lemma registerAnonymous_numbered:
  assumes "numbered nodes"
  shows "numbered (registerAnonymous ctx node c b nodes)"
proof -
  from registerAnonymous_append [OF assms, of ctx node c b] obtain b' where
    h: "registerAnonymous ctx node c b nodes = nodes @ [(syntheticId nodes, b')]"
       "variableId b' = syntheticId nodes" "variableName b' = syntheticName nodes b"
       "className b' = className b"
    by blast
  have "anonymousAt (length nodes) (syntheticId nodes, b')"
    using h by (simp add: anonymousAt_def syntheticId_def syntheticName_def)
  with assms h(1) show ?thesis by (simp add: numbered_snoc)
qed

lemma visitDeclarator_numbered:
  assumes "numbered nodes" and "visitDeclarator ctx node d nodes = Inr nodes'"
  shows "numbered nodes'"
  using assms
  by (auto simp: visitDeclarator_def setBubble_named split: option.splits if_splits prod.splits)

lemma foldE_invariant:
  assumes "\<And>x s s'. x \<in> set xs \<Longrightarrow> I s \<Longrightarrow> f x s = Inr s' \<Longrightarrow> I s'"
    and "I s" and "foldE f xs s = Inr s'"
  shows "I s'"
  using assms
proof (induction xs arbitrary: s)
  case Nil
  then show ?case by simp
next
  case (Cons x xs)
  from Cons.prems(3) obtain s1 where s1: "f x s = Inr s1" "foldE f xs s1 = Inr s'"
    by (auto split: sum.splits)
  have "I s1" using Cons.prems(1) [of x s s1] Cons.prems(2) s1(1) by simp
  show ?case
    by (rule Cons.IH [OF _ \<open>I s1\<close> s1(2)]) (use Cons.prems(1) in auto)
qed

lemma visitOwn_numbered:
  assumes "numbered nodes" and "visitOwn ctx node nodes = Inr nodes'"
  shows "numbered nodes'"
proof (cases "ntype node = ''VariableDeclaration''")
  case True
  with assms(2) have
    "foldE (visitDeclarator ctx node) (someNodes (childList node ''declarations'')) nodes = Inr nodes'"
    by (simp add: visitOwn_def)
  then show ?thesis
    by (rule foldE_invariant [where I = numbered, rotated 2])
       (auto intro: visitDeclarator_numbered assms(1))
next
  case False
  with assms show ?thesis
    by (auto simp: visitOwn_def registerAnonymous_numbered split: option.splits)
qed

lemma visitNode_numbered:
  "numbered nodes \<Longrightarrow> visitNode ctx node nodes = Inr nodes' \<Longrightarrow> numbered nodes'"
proof (induction ctx node nodes arbitrary: nodes' rule: visitNode.induct)
  case (1 ctx node nodes)
  from "1.prems"(2) obtain n1 where n1: "visitOwn ctx node nodes = Inr n1"
    "foldE (visitNode ctx) (children node) n1 = Inr nodes'"
    by (subst (asm) visitNode.simps) (auto split: sum.splits)
  have "numbered n1" using visitOwn_numbered [OF "1.prems"(1) n1(1)] .
  show ?case
    by (rule foldE_invariant [where I = numbered, OF _ \<open>numbered n1\<close> n1(2)])
       (use "1.IH" n1(1) in blast)
qed

lemma numbered_decreasing:
  assumes "numbered nodes" and "i < j" and "j < length nodes"
    and "fst (nodes ! i) < 0" and "fst (nodes ! j) < 0"
  shows "fst (nodes ! j) < fst (nodes ! i)"
proof -
  have i: "i < length nodes" using assms by simp
  have "namedEntry (nodes ! i) \<or> anonymousAt i (nodes ! i)"
    using assms(1) i by (simp add: numbered_def)
  then have ai: "anonymousAt i (nodes ! i)" using assms(4) by (auto simp: namedEntry_def)
  have "namedEntry (nodes ! j) \<or> anonymousAt j (nodes ! j)"
    using assms(1,3) by (simp add: numbered_def)
  then have aj: "anonymousAt j (nodes ! j)" using assms(5) by (auto simp: namedEntry_def)
  from ai aj assms(2) show ?thesis by (simp add: anonymousAt_def)
qed

lemma numbered_all_anonymous:
  assumes "numbered nodes" and "\<forall>e \<in> set nodes. fst e < 0"
  shows "map fst nodes = map (\<lambda>i. - (int i + 1)) [0..<length nodes]"
proof (rule nth_equalityI)
  show "length (map fst nodes) = length (map (\<lambda>i. - (int i + 1)) [0..<length nodes])" by simp
next
  fix i assume "i < length (map fst nodes)"
  then have i: "i < length nodes" by simp
  then have "fst (nodes ! i) < 0" using assms(2) by simp
  with assms(1) i have "anonymousAt i (nodes ! i)" by (auto simp: numbered_def namedEntry_def)
  with i show "map fst nodes ! i = map (\<lambda>i. - (int i + 1)) [0..<length nodes] ! i"
    by (simp add: anonymousAt_def)
qed

lemma anonymous_appended:
  assumes "numbered found" and "anonymousInstantiation ctx stmt = Some (c, b)"
  shows "\<exists>b'. visitOwn ctx stmt found = Inr (found @ [(- (int (length found) + 1), b')]) \<and>
           variableId b' = - (int (length found) + 1) \<and>
           hasAwait b' = hasAwait b \<and> hasActionCall b' = hasActionCall b"
proof -
  have nd: "ntype stmt \<noteq> ''VariableDeclaration''"
    using assms(2) by (auto simp: anonymousInstantiation_def split: if_splits)
  from registerAnonymous_append [OF assms(1), of ctx stmt c b] obtain b' where
    "registerAnonymous ctx stmt c b found = found @ [(syntheticId found, b')]"
    "variableId b' = syntheticId found" "hasAwait b' = hasAwait b"
    "hasActionCall b' = hasActionCall b"
    by blast
  then show ?thesis using nd assms(2)
    by (simp add: visitOwn_def syntheticId_def)
qed

lemma awaitedAction_flags:
  assumes "awaitedAction e = Some newExpr"
  shows "extractBubbleFromExpression script lookup e =
           map_option (\<lambda>b. b\<lparr>hasActionCall := True, hasAwait := True\<rparr>)
             (extractFromNewExpression script lookup newExpr)"
proof -
  from assms obtain call where e: "ntype e = ''AwaitExpression''" "child e ''argument'' = Some call"
    and call: "actionCallee call = Some newExpr"
    by (auto simp: awaitedAction_def split: if_splits Option.bind_splits)
  from call have c1: "ntype call = ''CallExpression''"
    "childType call ''callee'' = Some ''MemberExpression''"
    by (auto simp: actionCallee_def split: if_splits)
  from call c1 obtain callee p where c2: "child call ''callee'' = Some callee"
    "child callee ''property'' = Some p" "child callee ''object'' = Some newExpr"
    "ntype p = ''Identifier''" "nodeName p = ''action''" "ntype newExpr = ''NewExpression''"
    by (auto simp: actionCallee_def split: if_splits Option.bind_splits option.splits)
  have "extractBubbleFromExpression script lookup call =
          map_option (\<lambda>b. b\<lparr>hasActionCall := True\<rparr>) (extractFromNewExpression script lookup newExpr)"
    by (subst extractBubbleFromExpression.simps) (simp add: c1 c2)
  then show ?thesis
    by (subst extractBubbleFromExpression.simps)
       (simp add: e option.map_comp comp_def)
qed

text \<open>
  C3, as the code has it. The id of an anonymous bubble is minus the number of bubbles
  located so far, named ones included, minus one. So in the bubbles of a parse every
  entry is either a named one, with the id of its variable, or the anonymous bubble
  \<open>_anonymous_<class>_<i>\<close> with the id \<open>-(i + 1)\<close> at position \<open>i\<close>; the negative ids are
  strictly decreasing in the order of location, and they are \<open>-1, -2, ...\<close> when all
  bubbles are anonymous. A statement of one of the three anonymous forms appends its bubble
  under that id, with the flags of the expression; and \<open>await new X(...).action()\<close> sets both
  \<open>hasAwait\<close> and \<open>hasActionCall\<close>.
\<close>

theorem anonymous_ids:
  "(visitNode ctx program [] = Inr nodes \<longrightarrow>
      numbered nodes \<and>
      (\<forall>i j. i < j \<and> j < length nodes \<and> fst (nodes ! i) < 0 \<and> fst (nodes ! j) < 0 \<longrightarrow>
         fst (nodes ! j) < fst (nodes ! i)) \<and>
      ((\<forall>e \<in> set nodes. fst e < 0) \<longrightarrow>
         map fst nodes = map (\<lambda>i. - (int i + 1)) [0..<length nodes])) \<and>
   (numbered found \<and> anonymousInstantiation ctx stmt = Some (c, b) \<longrightarrow>
      (\<exists>b'. visitOwn ctx stmt found = Inr (found @ [(- (int (length found) + 1), b')]) \<and>
         variableId b' = - (int (length found) + 1) \<and>
         hasAwait b' = hasAwait b \<and> hasActionCall b' = hasActionCall b)) \<and>
   (awaitedAction e = Some newExpr \<longrightarrow>
      extractBubbleFromExpression script lookup e =
        map_option (\<lambda>b. b\<lparr>hasActionCall := True, hasAwait := True\<rparr>)
          (extractFromNewExpression script lookup newExpr))"
proof (intro conjI impI)
  assume v: "visitNode ctx program [] = Inr nodes"
  have "numbered []" by (simp add: numbered_def)
  then show n: "numbered nodes" using v by (rule visitNode_numbered)
  show "\<forall>i j. i < j \<and> j < length nodes \<and> fst (nodes ! i) < 0 \<and> fst (nodes ! j) < 0 \<longrightarrow>
         fst (nodes ! j) < fst (nodes ! i)"
    using numbered_decreasing [OF n] by blast
  assume "\<forall>e \<in> set nodes. fst e < 0"
  with n show "map fst nodes = map (\<lambda>i. - (int i + 1)) [0..<length nodes]"
    by (rule numbered_all_anonymous)
next
  assume "numbered found \<and> anonymousInstantiation ctx stmt = Some (c, b)"
  then show "\<exists>b'. visitOwn ctx stmt found = Inr (found @ [(- (int (length found) + 1), b')]) \<and>
         variableId b' = - (int (length found) + 1) \<and>
         hasAwait b' = hasAwait b \<and> hasActionCall b' = hasActionCall b"
    using anonymous_appended by blast
next
  assume "awaitedAction e = Some newExpr"
  then show "extractBubbleFromExpression script lookup e =
        map_option (\<lambda>b. b\<lparr>hasActionCall := True, hasAwait := True\<rparr>)
          (extractFromNewExpression script lookup newExpr)"
    by (rule awaitedAction_flags)
qed

theorem anonymous_ids_witness:
  "visitNode c3_ctx c3_program [] = Inr [(- 1, c3_bubble)] \<and>
   numbered [(- 1, c3_bubble)] \<and>
   anonymousInstantiation c3_ctx c3_statement = Some (True, c3_bubble\<lparr>variableId := - 1, variableName := []\<rparr>) \<and>
   awaitedAction c3_await = Some c3_new \<and>
   variableId c3_bubble = - 1 \<and> hasAwait c3_bubble \<and> hasActionCall c3_bubble"
proof -
  have v: "visitNode c3_ctx c3_program [] = Inr [(- 1, c3_bubble)]" by code_simp
  have a: "anonymousInstantiation c3_ctx c3_statement =
             Some (True, c3_bubble\<lparr>variableId := - 1, variableName := []\<rparr>)"
    by code_simp
  have w: "awaitedAction c3_await = Some c3_new" by code_simp
  have f: "variableId c3_bubble = - 1 \<and> hasAwait c3_bubble \<and> hasActionCall c3_bubble"
    by (simp add: c3_bubble_def)
  from anonymous_ids [of c3_ctx c3_program "[(- 1, c3_bubble)]" "[]" c3_statement True
      "c3_bubble\<lparr>variableId := - 1, variableName := []\<rparr>" c3_await c3_new c3_script c3_lookup]
    v a w
  have "numbered [(- 1, c3_bubble)]" by blast
  with v a w f show ?thesis by blast
qed

text \<open>
  C3, as the claim has it, fails: in
  \<^verbatim>\<open>const a = new X({});
await new X({}).action();\<close>
  the only anonymous bubble is located after a named one and gets the id \<open>-2\<close>; no bubble has
  the id \<open>-1\<close>.
\<close>

theorem anonymous_after_named:
  "map_sum id (map fst) (visitNode c3_named_ctx c3_named_program []) = Inr [1, - 2]"
  by code_simp

section \<open>Properties of the parameter extractor\<close>





















end
